theory Spec2Isabelle
  imports Main "HOL-Library.Word"
begin

unbundle bit_operations_syntax

section \<open>Remote multicast setup package (LmhpRemoteMcastSetup.c)\<close>

text \<open>
  A shallow embedding of the package handler of
  \<^verbatim>\<open>src/apps/LoRaMac/common/LmHandler/packages/LmhpRemoteMcastSetup.c\<close>.

  Conventions of the model.
  \<^item> \<^verbatim>\<open>uint8_t\<close> is \<open>8 word\<close>, \<^verbatim>\<open>uint32_t\<close> and \<^verbatim>\<open>int32_t\<close> are \<open>32 word\<close>
    (\<open>sint\<close> reads the signed value); arithmetic wraps around.
  \<^item> Bit-fields are allocated from the least significant bit of their byte, the
    allocation of the little-endian ARM targets the file is built for.
  \<^item> A read or a write outside the array behind a pointer is undefined in C; the
    model returns a \<open>fault\<close> there.
  \<^item> The MAC layer, the system clock, the timer service and the host callbacks are
    not part of this file. The MAC layer and the clock are parameters
    (\<open>Externals\<close>) acting on an abstract world \<open>'m\<close>; the calls made to the host
    are logged in the state.
\<close>

type_synonym u8 = "8 word"
type_synonym u32 = "32 word"

subsection \<open>Constants and enumerations\<close>

abbreviation (input) REMOTE_MCAST_SETUP_PORT :: u8 where
  "REMOTE_MCAST_SETUP_PORT \<equiv> 200"

abbreviation (input) REMOTE_MCAST_SETUP_ID :: u8 where
  "REMOTE_MCAST_SETUP_ID \<equiv> 2"

abbreviation (input) REMOTE_MCAST_SETUP_VERSION :: u8 where
  "REMOTE_MCAST_SETUP_VERSION \<equiv> 1"

text \<open>
  Modelled from the spec: \<^verbatim>\<open>LORAMAC_MAX_MC_CTX\<close> is declared in LoRaMac.h, which is
  not among the sources; the specification fixes the number of multicast group slots
  to 4, and the source indexes the slots 0 to 3.
\<close>

abbreviation (input) LORAMAC_MAX_MC_CTX :: u8 where
  "LORAMAC_MAX_MC_CTX \<equiv> 4"

text \<open>\<^verbatim>\<open>LmhpRemoteMcastSetupMoteCmd_t\<close>: the answer opcodes.\<close>

abbreviation (input) REMOTE_MCAST_SETUP_PKG_VERSION_ANS :: u8 where
  "REMOTE_MCAST_SETUP_PKG_VERSION_ANS \<equiv> 0x00"

abbreviation (input) REMOTE_MCAST_SETUP_MC_GROUP_STATUS_ANS :: u8 where
  "REMOTE_MCAST_SETUP_MC_GROUP_STATUS_ANS \<equiv> 0x01"

abbreviation (input) REMOTE_MCAST_SETUP_MC_GROUP_SETUP_ANS :: u8 where
  "REMOTE_MCAST_SETUP_MC_GROUP_SETUP_ANS \<equiv> 0x02"

abbreviation (input) REMOTE_MCAST_SETUP_MC_GROUP_DELETE_ANS :: u8 where
  "REMOTE_MCAST_SETUP_MC_GROUP_DELETE_ANS \<equiv> 0x03"

abbreviation (input) REMOTE_MCAST_SETUP_MC_GROUP_CLASS_C_SESSION_ANS :: u8 where
  "REMOTE_MCAST_SETUP_MC_GROUP_CLASS_C_SESSION_ANS \<equiv> 0x04"

text \<open>\<^verbatim>\<open>LmhpRemoteMcastSetupSrvCmd_t\<close>: the request opcodes.\<close>

abbreviation (input) REMOTE_MCAST_SETUP_PKG_VERSION_REQ :: u8 where
  "REMOTE_MCAST_SETUP_PKG_VERSION_REQ \<equiv> 0x00"

abbreviation (input) REMOTE_MCAST_SETUP_MC_GROUP_STATUS_REQ :: u8 where
  "REMOTE_MCAST_SETUP_MC_GROUP_STATUS_REQ \<equiv> 0x01"

abbreviation (input) REMOTE_MCAST_SETUP_MC_GROUP_SETUP_REQ :: u8 where
  "REMOTE_MCAST_SETUP_MC_GROUP_SETUP_REQ \<equiv> 0x02"

abbreviation (input) REMOTE_MCAST_SETUP_MC_GROUP_DELETE_REQ :: u8 where
  "REMOTE_MCAST_SETUP_MC_GROUP_DELETE_REQ \<equiv> 0x03"

abbreviation (input) REMOTE_MCAST_SETUP_MC_GROUP_CLASS_C_SESSION_REQ :: u8 where
  "REMOTE_MCAST_SETUP_MC_GROUP_CLASS_C_SESSION_REQ \<equiv> 0x04"

abbreviation (input) REMOTE_MCAST_SETUP_MC_GROUP_CLASS_B_SESSION_REQ :: u8 where
  "REMOTE_MCAST_SETUP_MC_GROUP_CLASS_B_SESSION_REQ \<equiv> 0x05"

datatype DeviceClass_t = CLASS_A | CLASS_B | CLASS_C

text \<open>The source only compares a MAC status with \<^verbatim>\<open>LORAMAC_STATUS_OK\<close>.\<close>

datatype LoRaMacStatus_t = LORAMAC_STATUS_OK | LORAMAC_STATUS_ERROR

datatype LmHandlerMsgTypes_t = LORAMAC_HANDLER_UNCONFIRMED_MSG | LORAMAC_HANDLER_CONFIRMED_MSG

datatype SessionState_t = SESSION_STOPED | SESSION_STARTED

subsection \<open>Data\<close>

text \<open>The inbound indication: the array behind \<^verbatim>\<open>Buffer\<close> and the announced size.\<close>

record McpsIndication_t =
  Buffer :: "u8 list"
  BufferSize :: u8

text \<open>The message handed to \<^verbatim>\<open>OnSendRequest\<close>: the first \<^verbatim>\<open>BufferSize\<close> bytes behind
  the pointer, the size and the port.\<close>

record LmHandlerAppData_t =
  AppBuffer :: "u8 list"
  AppBufferSize :: u8
  Port :: u8

text \<open>The class C member of \<^verbatim>\<open>McRxParams_t\<close>.\<close>

record McRxParams_t =
  Frequency :: u32
  Datarate :: u8

text \<open>\<^verbatim>\<open>McGroupData_t\<close>; \<open>IdHeader\<close> is the byte \<^verbatim>\<open>IdHeader.Value\<close> of the union.\<close>

record McGroupData_t =
  IdHeader :: u8
  McAddr :: u32
  McKeyEncrypted :: "u8 list"
  McFCountMin :: u32
  McFCountMax :: u32

text \<open>The bit-field \<^verbatim>\<open>IdHeader.Fields.McGroupId\<close>: the two low bits of the byte.\<close>

definition McGroupId :: "McGroupData_t \<Rightarrow> u8" where
  "McGroupId g = IdHeader g AND 0x03"

record McSessionData_t =
  McGroupData :: McGroupData_t
  SessionState :: SessionState_t
  SessionTime :: u32
  SessionTimeout :: u8
  RxParams :: McRxParams_t

text \<open>The channel description the source hands to \<^verbatim>\<open>LoRaMacMcChannelSetup\<close> and reads
  back from the MAC context.\<close>

record McChannelParams_t =
  Class :: DeviceClass_t
  IsEnabled :: bool
  GroupID :: u8
  Address :: u32
  McKeyE :: "u8 list"
  FCountMin :: u32
  FCountMax :: u32
  ChannelRxParams :: McRxParams_t

text \<open>
  Modelled from the spec: the generic millisecond timer service (timer.h) is not among
  the sources. A timer holds the value set by \<^verbatim>\<open>TimerSetValue\<close>, in milliseconds, and
  whether it is running.
\<close>

record TimerEvent_t =
  ReloadValue :: u32
  IsStarted :: bool

definition TimerInit :: TimerEvent_t where
  "TimerInit = \<lparr>ReloadValue = 0, IsStarted = False\<rparr>"

definition TimerSetValue :: "TimerEvent_t \<Rightarrow> u32 \<Rightarrow> TimerEvent_t" where
  "TimerSetValue obj v = obj\<lparr>ReloadValue := v\<rparr>"

definition TimerStart :: "TimerEvent_t \<Rightarrow> TimerEvent_t" where
  "TimerStart obj = obj\<lparr>IsStarted := True\<rparr>"

definition TimerStop :: "TimerEvent_t \<Rightarrow> TimerEvent_t" where
  "TimerStop obj = obj\<lparr>IsStarted := False\<rparr>"

text \<open>
  The external collaborators, as parameters. \<open>'m\<close> is the world they act on (the MAC
  layer's context and the clock).
  \<^item> \<open>LoRaMacMcChannelSetup channel\<close>, \<open>LoRaMacMcChannelDelete groupID\<close>: the status.
  \<^item> \<open>LoRaMacMcChannelSetupRxParams groupID rxParams status\<close>: the status and the byte
    left in \<^verbatim>\<open>*status\<close>, which holds \<open>status\<close> at the call.
  \<^item> \<open>MulticastChannelList\<close>: the channel parameters of the MAC context's multicast
    list, as \<^verbatim>\<open>LoRaMacMibGetRequestConfirm\<close> with \<^verbatim>\<open>MIB_NVM_CTXS\<close> exposes them.
  \<^item> \<open>SysTimeGet\<close>: the seconds of the system time.
  \<^item> \<open>UNIX_GPS_EPOCH_OFFSET\<close>: the constant of systime.h.
\<close>

record 'm Externals =
  LoRaMacMcChannelSetup :: "McChannelParams_t \<Rightarrow> 'm \<Rightarrow> LoRaMacStatus_t \<times> 'm"
  LoRaMacMcChannelDelete :: "u8 \<Rightarrow> 'm \<Rightarrow> LoRaMacStatus_t \<times> 'm"
  LoRaMacMcChannelSetupRxParams :: "u8 \<Rightarrow> McRxParams_t \<Rightarrow> u8 \<Rightarrow> 'm \<Rightarrow> LoRaMacStatus_t \<times> u8 \<times> 'm"
  MulticastChannelList :: "'m \<Rightarrow> nat \<Rightarrow> McChannelParams_t"
  SysTimeGet :: "'m \<Rightarrow> u32"
  UNIX_GPS_EPOCH_OFFSET :: u32

text \<open>
  The globals of the file (\<^verbatim>\<open>LmhpRemoteMcastSetupState\<close>, \<^verbatim>\<open>McSessionData\<close>, the two timers),
  the world of the collaborators and the log of the calls to \<^verbatim>\<open>LmHandlerRequestClass\<close> and
  \<^verbatim>\<open>OnSendRequest\<close>. \<open>McSessionData\<close> is the array of \<^verbatim>\<open>LORAMAC_MAX_MC_CTX\<close> records, read
  at its index; every index expression of the source is below 4.
\<close>

record 'm State =
  Initialized :: bool
  IsRunning :: bool
  DataBufferMaxSize :: u8
  DataBuffer :: "u8 list"
  McSessionData :: "nat \<Rightarrow> McSessionData_t"
  SessionStartTimer :: TimerEvent_t
  SessionStopTimer :: TimerEvent_t
  mac :: 'm
  ClassRequests :: "DeviceClass_t list"
  SendRequests :: "(LmHandlerAppData_t \<times> LmHandlerMsgTypes_t) list"

subsection \<open>Package adapter\<close>

text \<open>\<^verbatim>\<open>LmhpRemoteMcastSetupInit\<close>; \<open>None\<close> is the \<^verbatim>\<open>NULL\<close> buffer.\<close>

definition LmhpRemoteMcastSetupInit :: "u8 list option \<Rightarrow> u8 \<Rightarrow> 'm State \<Rightarrow> 'm State" where
  "LmhpRemoteMcastSetupInit dataBuffer dataBufferMaxSize s =
     (case dataBuffer of
        Some buf \<Rightarrow>
          s\<lparr>DataBuffer := buf, DataBufferMaxSize := dataBufferMaxSize,
            Initialized := True, IsRunning := True,
            SessionStartTimer := TimerInit, SessionStopTimer := TimerInit\<rparr>
      | None \<Rightarrow> s\<lparr>IsRunning := False, Initialized := False\<rparr>)"

definition LmhpRemoteMcastSetupIsInitialized :: "'m State \<Rightarrow> bool" where
  "LmhpRemoteMcastSetupIsInitialized s = Initialized s"

definition LmhpRemoteMcastSetupIsRunning :: "'m State \<Rightarrow> bool" where
  "LmhpRemoteMcastSetupIsRunning s = (if Initialized s = False then False else IsRunning s)"

definition LmhpRemoteMcastSetupProcess :: "'m State \<Rightarrow> 'm State" where
  "LmhpRemoteMcastSetupProcess s = s"

subsection \<open>Reading the inbound buffer, writing the answer buffer\<close>

datatype fault = InboundReadOutOfBounds | DataBufferWriteOutOfBounds

definition seq :: "fault + 'a \<Rightarrow> ('a \<Rightarrow> fault + 'b) \<Rightarrow> fault + 'b" where
  "seq r f = (case r of Inl e \<Rightarrow> Inl e | Inr x \<Rightarrow> f x)"

text \<open>\<^verbatim>\<open>mcpsIndication->Buffer[cmdIndex++]\<close>: the byte and the index after it. The index is
  a \<^verbatim>\<open>uint8_t\<close>, and the source never compares it with the size inside a command.\<close>

definition rd :: "McpsIndication_t \<Rightarrow> u8 \<Rightarrow> fault + (u8 \<times> u8)" where
  "rd ind cmdIndex =
     (if unat cmdIndex < length (Buffer ind)
      then Inr (Buffer ind ! unat cmdIndex, cmdIndex + 1)
      else Inl InboundReadOutOfBounds)"

text \<open>\<open>n\<close> times \<^verbatim>\<open>Buffer[cmdIndex++]\<close>, in a row.\<close>

primrec rd_n :: "nat \<Rightarrow> McpsIndication_t \<Rightarrow> u8 \<Rightarrow> fault + (u8 list \<times> u8)" where
  "rd_n 0 ind cmdIndex = Inr ([], cmdIndex)"
| "rd_n (Suc n) ind cmdIndex =
     seq (rd ind cmdIndex) (\<lambda>(b, cmdIndex).
     seq (rd_n n ind cmdIndex) (\<lambda>(bs, cmdIndex). Inr (b # bs, cmdIndex)))"

text \<open>The four statements that assemble a 32-bit field from the next four bytes: shift,
  mask, \<^verbatim>\<open>=\<close> then \<^verbatim>\<open>+=\<close>. The byte is promoted before the shift.\<close>

definition u32_of_bytes :: "u8 \<Rightarrow> u8 \<Rightarrow> u8 \<Rightarrow> u8 \<Rightarrow> u32" where
  "u32_of_bytes b0 b1 b2 b3 =
     (push_bit 0 (ucast b0) AND 0x000000FF)
     + (push_bit 8 (ucast b1) AND 0x0000FF00)
     + (push_bit 16 (ucast b2) AND 0x00FF0000)
     + (push_bit 24 (ucast b3) AND 0xFF000000)"

definition rd_u32 :: "McpsIndication_t \<Rightarrow> u8 \<Rightarrow> fault + (u32 \<times> u8)" where
  "rd_u32 ind cmdIndex =
     seq (rd ind cmdIndex) (\<lambda>(b0, cmdIndex).
     seq (rd ind cmdIndex) (\<lambda>(b1, cmdIndex).
     seq (rd ind cmdIndex) (\<lambda>(b2, cmdIndex).
     seq (rd ind cmdIndex) (\<lambda>(b3, cmdIndex).
       Inr (u32_of_bytes b0 b1 b2 b3, cmdIndex)))))"

text \<open>The four statements that assemble the receive frequency from the next three
  bytes: \<^verbatim>\<open>=\<close> then \<^verbatim>\<open>|=\<close>, and \<^verbatim>\<open>*= 100\<close>.\<close>

definition freq_of_bytes :: "u8 \<Rightarrow> u8 \<Rightarrow> u8 \<Rightarrow> u32" where
  "freq_of_bytes b0 b1 b2 =
     ((push_bit 0 (ucast b0) AND 0x000000FF)
      OR (push_bit 8 (ucast b1) AND 0x0000FF00)
      OR (push_bit 16 (ucast b2) AND 0x00FF0000)) * 100"

definition rd_freq :: "McpsIndication_t \<Rightarrow> u8 \<Rightarrow> fault + (u32 \<times> u8)" where
  "rd_freq ind cmdIndex =
     seq (rd ind cmdIndex) (\<lambda>(b0, cmdIndex).
     seq (rd ind cmdIndex) (\<lambda>(b1, cmdIndex).
     seq (rd ind cmdIndex) (\<lambda>(b2, cmdIndex).
       Inr (freq_of_bytes b0 b1 b2, cmdIndex))))"

text \<open>\<^verbatim>\<open>LmhpRemoteMcastSetupState.DataBuffer[dataBufferIndex++] = v\<close>. The index is a
  \<^verbatim>\<open>uint8_t\<close>; the source never compares it with \<^verbatim>\<open>DataBufferMaxSize\<close>.\<close>

definition wr :: "u8 \<Rightarrow> u8 \<times> 'm State \<Rightarrow> fault + (u8 \<times> 'm State)" where
  "wr v p =
     (case p of (dataBufferIndex, s) \<Rightarrow>
        if unat dataBufferIndex < length (DataBuffer s)
        then Inr (dataBufferIndex + 1, s\<lparr>DataBuffer := (DataBuffer s)[unat dataBufferIndex := v]\<rparr>)
        else Inl DataBufferWriteOutOfBounds)"

text \<open>Consecutive stores \<^verbatim>\<open>DataBuffer[dataBufferIndex++] = v\<close>, in the order of the list.\<close>

primrec wr_list :: "u8 list \<Rightarrow> u8 \<times> 'm State \<Rightarrow> fault + (u8 \<times> 'm State)" where
  "wr_list [] p = Inr p"
| "wr_list (v # vs) p = seq (wr v p) (wr_list vs)"

subsection \<open>The bit-fields of the group status command\<close>

record TMcReqGroupMask =
  ReqGroupMask4 :: bool
  ReqGroupMask3 :: bool
  ReqGroupMask2 :: bool
  ReqGroupMask1 :: bool
  ReqRfu :: "4 word"

text \<open>The cast \<^verbatim>\<open>(TMcReqGroupMask*)&mcpsIndication->Buffer[cmdIndex++]\<close>: the fields of the
  byte, the first declared in bit 0.\<close>

definition TMcReqGroupMask_of_byte :: "u8 \<Rightarrow> TMcReqGroupMask" where
  "TMcReqGroupMask_of_byte b =
     \<lparr>ReqGroupMask4 = bit b 0, ReqGroupMask3 = bit b 1, ReqGroupMask2 = bit b 2,
      ReqGroupMask1 = bit b 3, ReqRfu = ucast (drop_bit 4 b)\<rparr>"

record TMcGroupStatusAns =
  AnsGroupMask4 :: bool
  AnsGroupMask3 :: bool
  AnsGroupMask2 :: bool
  AnsGroupMask1 :: bool
  NbTotalGroups :: "3 word"
  AnsRfu :: bool

text \<open>The cast \<^verbatim>\<open>*((uint8_t*)&StatusAns)\<close>: the byte of the fields.\<close>

definition byte_of_TMcGroupStatusAns :: "TMcGroupStatusAns \<Rightarrow> u8" where
  "byte_of_TMcGroupStatusAns a =
     of_bool (AnsGroupMask4 a)
     OR push_bit 1 (of_bool (AnsGroupMask3 a))
     OR push_bit 2 (of_bool (AnsGroupMask2 a))
     OR push_bit 3 (of_bool (AnsGroupMask1 a))
     OR push_bit 4 (ucast (NbTotalGroups a))
     OR push_bit 7 (of_bool (AnsRfu a))"

text \<open>The five bytes stored for a group whose answer bit is set: the group identifier and
  the address, least significant byte first.\<close>

definition group_entry :: "McChannelParams_t \<Rightarrow> u8 list" where
  "group_entry c =
     [GroupID c,
      ucast (drop_bit 0 (Address c) AND 0xFF),
      ucast (drop_bit 8 (Address c) AND 0xFF),
      ucast (drop_bit 16 (Address c) AND 0xFF),
      ucast (drop_bit 24 (Address c) AND 0xFF)]"

subsection \<open>The cases of the command switch\<close>

text \<open>
  Each case takes the loop's variables \<^verbatim>\<open>cmdIndex\<close> (already past the opcode) and
  \<^verbatim>\<open>dataBufferIndex\<close> with the state, and returns them as the case leaves them.
\<close>

type_synonym 'm vars = "u8 \<times> u8 \<times> 'm State"

definition case_PKG_VERSION_REQ :: "'m vars \<Rightarrow> fault + 'm vars" where
  "case_PKG_VERSION_REQ v =
     (case v of (cmdIndex, dataBufferIndex, s) \<Rightarrow>
        seq (wr_list [REMOTE_MCAST_SETUP_PKG_VERSION_ANS, REMOTE_MCAST_SETUP_ID,
                      REMOTE_MCAST_SETUP_VERSION] (dataBufferIndex, s))
          (\<lambda>(dataBufferIndex, s). Inr (cmdIndex, dataBufferIndex, s)))"

definition case_MC_GROUP_STATUS_REQ ::
  "'m Externals \<Rightarrow> McpsIndication_t \<Rightarrow> 'm vars \<Rightarrow> fault + 'm vars" where
  "case_MC_GROUP_STATUS_REQ env ind v =
     (case v of (cmdIndex, dataBufferIndex, s) \<Rightarrow>
        seq (rd ind cmdIndex) (\<lambda>(b, cmdIndex).
          let ReqGroupMask = TMcReqGroupMask_of_byte b;
              Ctx = MulticastChannelList env (mac s);
              StatusAns = \<lparr>AnsGroupMask4 = ReqGroupMask4 ReqGroupMask,
                           AnsGroupMask3 = ReqGroupMask3 ReqGroupMask,
                           AnsGroupMask2 = ReqGroupMask2 ReqGroupMask,
                           AnsGroupMask1 = ReqGroupMask1 ReqGroupMask,
                           NbTotalGroups = ucast LORAMAC_MAX_MC_CTX,
                           AnsRfu = False\<rparr>;
              StatusAns = (if Address (Ctx 0) = 0 then StatusAns\<lparr>AnsGroupMask1 := False\<rparr> else StatusAns);
              StatusAns = (if Address (Ctx 1) = 0 then StatusAns\<lparr>AnsGroupMask2 := False\<rparr> else StatusAns);
              StatusAns = (if Address (Ctx 2) = 0 then StatusAns\<lparr>AnsGroupMask3 := False\<rparr> else StatusAns);
              StatusAns = (if Address (Ctx 3) = 0 then StatusAns\<lparr>AnsGroupMask4 := False\<rparr> else StatusAns)
          in seq (wr_list ([REMOTE_MCAST_SETUP_MC_GROUP_STATUS_ANS, byte_of_TMcGroupStatusAns StatusAns]
                           @ (if AnsGroupMask1 StatusAns then group_entry (Ctx 0) else [])
                           @ (if AnsGroupMask2 StatusAns then group_entry (Ctx 1) else [])
                           @ (if AnsGroupMask3 StatusAns then group_entry (Ctx 2) else [])
                           @ (if AnsGroupMask4 StatusAns then group_entry (Ctx 3) else []))
                    (dataBufferIndex, s))
               (\<lambda>(dataBufferIndex, s). Inr (cmdIndex, dataBufferIndex, s))))"

text \<open>
  The group setup case. The identifier is checked first, and the case is left at once
  when it is not below \<^verbatim>\<open>LORAMAC_MAX_MC_CTX\<close>: \<^verbatim>\<open>cmdIndex\<close> is then just past the identifier.
  Otherwise the fields are stored in the slot, then the channel is handed to the MAC
  layer, then the answer is stored. The key loop overwrites the 16 bytes of
  \<^verbatim>\<open>McKeyEncrypted\<close> with the next 16 bytes read.
\<close>

definition case_MC_GROUP_SETUP_REQ ::
  "'m Externals \<Rightarrow> McpsIndication_t \<Rightarrow> 'm vars \<Rightarrow> fault + 'm vars" where
  "case_MC_GROUP_SETUP_REQ env ind v =
     (case v of (cmdIndex, dataBufferIndex, s) \<Rightarrow>
        seq (rd ind cmdIndex) (\<lambda>(id, cmdIndex).
          if id \<ge> LORAMAC_MAX_MC_CTX then Inr (cmdIndex, dataBufferIndex, s)
          else
            seq (rd_u32 ind cmdIndex) (\<lambda>(addr, cmdIndex).
            seq (rd_n 16 ind cmdIndex) (\<lambda>(key, cmdIndex).
            seq (rd_u32 ind cmdIndex) (\<lambda>(fmin, cmdIndex).
            seq (rd_u32 ind cmdIndex) (\<lambda>(fmax, cmdIndex).
              let g = \<lparr>IdHeader = id, McAddr = addr, McKeyEncrypted = key,
                       McFCountMin = fmin, McFCountMax = fmax\<rparr>;
                  s = s\<lparr>McSessionData := (McSessionData s)
                         (unat id := (McSessionData s (unat id))\<lparr>McGroupData := g\<rparr>)\<rparr>;
                  channel = \<lparr>Class = CLASS_C, IsEnabled = True, GroupID = McGroupId g,
                             Address = McAddr g, McKeyE = McKeyEncrypted g,
                             FCountMin = McFCountMin g, FCountMax = McFCountMax g,
                             ChannelRxParams = \<lparr>Frequency = 0, Datarate = 0\<rparr>\<rparr>
              in case LoRaMacMcChannelSetup env channel (mac s) of (r, m) \<Rightarrow>
                   let idError = (if r = LORAMAC_STATUS_OK then 0x00 else 0x01 :: u8)
                   in seq (wr_list [REMOTE_MCAST_SETUP_MC_GROUP_SETUP_ANS,
                                    push_bit 2 idError OR McGroupId g]
                             (dataBufferIndex, s\<lparr>mac := m\<rparr>))
                        (\<lambda>(dataBufferIndex, s). Inr (cmdIndex, dataBufferIndex, s))))))))"

definition case_MC_GROUP_DELETE_REQ ::
  "'m Externals \<Rightarrow> McpsIndication_t \<Rightarrow> 'm vars \<Rightarrow> fault + 'm vars" where
  "case_MC_GROUP_DELETE_REQ env ind v =
     (case v of (cmdIndex, dataBufferIndex, s) \<Rightarrow>
        seq (rd ind cmdIndex) (\<lambda>(b, cmdIndex).
          let id = b AND 0x03;
              status = id
          in seq (wr_list [REMOTE_MCAST_SETUP_MC_GROUP_DELETE_ANS] (dataBufferIndex, s))
               (\<lambda>(dataBufferIndex, s).
                  case LoRaMacMcChannelDelete env id (mac s) of (r, m) \<Rightarrow>
                    let status = (if r \<noteq> LORAMAC_STATUS_OK then status OR 0x04 else status)
                    in seq (wr_list [status] (dataBufferIndex, s\<lparr>mac := m\<rparr>))
                         (\<lambda>(dataBufferIndex, s). Inr (cmdIndex, dataBufferIndex, s)))))"

text \<open>
  The class C session case. The session fields are stored in the slot first; the MAC
  layer is then called with the stored receive parameters and a status byte that is
  0 at the call. \<^verbatim>\<open>timeToSessionStart\<close> is the \<^verbatim>\<open>int32_t\<close> of the 32-bit difference; where it
  is positive its shifts are those of a non-negative value. The product with 1000
  wraps at 32 bits.
\<close>

definition case_MC_GROUP_CLASS_C_SESSION_REQ ::
  "'m Externals \<Rightarrow> McpsIndication_t \<Rightarrow> 'm vars \<Rightarrow> fault + 'm vars" where
  "case_MC_GROUP_CLASS_C_SESSION_REQ env ind v =
     (case v of (cmdIndex, dataBufferIndex, s) \<Rightarrow>
        seq (rd ind cmdIndex) (\<lambda>(b, cmdIndex).
          let id = b AND 0x03
          in seq (rd_u32 ind cmdIndex) (\<lambda>(t, cmdIndex).
             seq (rd ind cmdIndex) (\<lambda>(tmo, cmdIndex).
             seq (rd_freq ind cmdIndex) (\<lambda>(freq, cmdIndex).
             seq (rd ind cmdIndex) (\<lambda>(dr, cmdIndex).
               let d = (McSessionData s (unat id))
                         \<lparr>SessionTime := t + UNIX_GPS_EPOCH_OFFSET env,
                          SessionTimeout := tmo AND 0x0F,
                          RxParams := \<lparr>Frequency = freq, Datarate = dr\<rparr>\<rparr>;
                   s = s\<lparr>McSessionData := (McSessionData s)(unat id := d)\<rparr>
               in seq (wr_list [REMOTE_MCAST_SETUP_MC_GROUP_CLASS_C_SESSION_ANS] (dataBufferIndex, s))
                    (\<lambda>(dataBufferIndex, s).
                       case LoRaMacMcChannelSetupRxParams env id
                              (RxParams (McSessionData s (unat id))) 0x00 (mac s) of
                         (r, status, m) \<Rightarrow>
                           let s = s\<lparr>mac := m\<rparr> in
                           if r = LORAMAC_STATUS_OK then
                             let curTime = SysTimeGet env (mac s);
                                 timeToSessionStart = SessionTime (McSessionData s (unat id)) - curTime
                             in if 0 < sint timeToSessionStart then
                                  let s = s\<lparr>SessionStartTimer :=
                                             TimerStart (TimerSetValue (SessionStartTimer s)
                                                           (timeToSessionStart * 1000))\<rparr>
                                  in seq (wr_list [status,
                                                   ucast (drop_bit 0 timeToSessionStart AND 0xFF),
                                                   ucast (drop_bit 8 timeToSessionStart AND 0xFF),
                                                   ucast (drop_bit 16 timeToSessionStart AND 0xFF)]
                                            (dataBufferIndex, s))
                                       (\<lambda>(dataBufferIndex, s). Inr (cmdIndex, dataBufferIndex, s))
                                else
                                  seq (wr_list [status OR 0x10] (dataBufferIndex, s))
                                    (\<lambda>(dataBufferIndex, s). Inr (cmdIndex, dataBufferIndex, s))
                           else
                             seq (wr_list [status] (dataBufferIndex, s))
                               (\<lambda>(dataBufferIndex, s). Inr (cmdIndex, dataBufferIndex, s)))))))))"

subsection \<open>The indication handler\<close>

text \<open>One turn of the \<^verbatim>\<open>while\<close> loop: the opcode is read and the switch taken. The class B
  session case and the default case do nothing.\<close>

definition switch_cmd :: "'m Externals \<Rightarrow> McpsIndication_t \<Rightarrow> 'm vars \<Rightarrow> fault + 'm vars" where
  "switch_cmd env ind v =
     (case v of (cmdIndex, dataBufferIndex, s) \<Rightarrow>
        seq (rd ind cmdIndex) (\<lambda>(opc, cmdIndex).
          if opc = REMOTE_MCAST_SETUP_PKG_VERSION_REQ then
            case_PKG_VERSION_REQ (cmdIndex, dataBufferIndex, s)
          else if opc = REMOTE_MCAST_SETUP_MC_GROUP_STATUS_REQ then
            case_MC_GROUP_STATUS_REQ env ind (cmdIndex, dataBufferIndex, s)
          else if opc = REMOTE_MCAST_SETUP_MC_GROUP_SETUP_REQ then
            case_MC_GROUP_SETUP_REQ env ind (cmdIndex, dataBufferIndex, s)
          else if opc = REMOTE_MCAST_SETUP_MC_GROUP_DELETE_REQ then
            case_MC_GROUP_DELETE_REQ env ind (cmdIndex, dataBufferIndex, s)
          else if opc = REMOTE_MCAST_SETUP_MC_GROUP_CLASS_C_SESSION_REQ then
            case_MC_GROUP_CLASS_C_SESSION_REQ env ind (cmdIndex, dataBufferIndex, s)
          else if opc = REMOTE_MCAST_SETUP_MC_GROUP_CLASS_B_SESSION_REQ then
            Inr (cmdIndex, dataBufferIndex, s)
          else Inr (cmdIndex, dataBufferIndex, s)))"

text \<open>The \<^verbatim>\<open>while\<close> loop. \<^verbatim>\<open>cmdIndex\<close> wraps at 256, so the loop need not end: \<open>None\<close> is
  the run that never leaves it.\<close>

partial_function (option) cmd_loop ::
  "'m Externals \<Rightarrow> McpsIndication_t \<Rightarrow> 'm vars \<Rightarrow> (fault + u8 \<times> 'm State) option" where
  "cmd_loop env ind v =
     (case v of (cmdIndex, dataBufferIndex, s) \<Rightarrow>
        if cmdIndex < BufferSize ind then
          (case switch_cmd env ind (cmdIndex, dataBufferIndex, s) of
             Inl e \<Rightarrow> Some (Inl e)
           | Inr v' \<Rightarrow> cmd_loop env ind v')
        else Some (Inr (dataBufferIndex, s)))"

text \<open>\<^verbatim>\<open>LmhpRemoteMcastSetupOnMcpsIndication\<close>: the loop from index 0, then the answer is
  handed to \<^verbatim>\<open>OnSendRequest\<close> when \<^verbatim>\<open>dataBufferIndex\<close> is not 0. The debug output is left
  out.\<close>

definition LmhpRemoteMcastSetupOnMcpsIndication ::
  "'m Externals \<Rightarrow> McpsIndication_t \<Rightarrow> 'm State \<Rightarrow> (fault + 'm State) option" where
  "LmhpRemoteMcastSetupOnMcpsIndication env ind s =
     (case cmd_loop env ind (0, 0, s) of
        None \<Rightarrow> None
      | Some (Inl e) \<Rightarrow> Some (Inl e)
      | Some (Inr (dataBufferIndex, s)) \<Rightarrow>
          if dataBufferIndex \<noteq> 0 then
            let appData = \<lparr>AppBuffer = take (unat dataBufferIndex) (DataBuffer s),
                           AppBufferSize = dataBufferIndex,
                           Port = REMOTE_MCAST_SETUP_PORT\<rparr>
            in Some (Inr (s\<lparr>SendRequests :=
                             SendRequests s @ [(appData, LORAMAC_HANDLER_UNCONFIRMED_MSG)]\<rparr>))
          else Some (Inr s))"

subsection \<open>The session timers\<close>

text \<open>The two callbacks. The start callback reads the timeout of \<^verbatim>\<open>McSessionData[0]\<close>,
  whatever slot the command that armed the timer wrote; the field only ever receives
  a value masked with \<^verbatim>\<open>0x0F\<close>, so the shift stays below 16 bits. Neither callback uses
  its \<^verbatim>\<open>context\<close> argument.\<close>

definition OnSessionStartTimer :: "'m State \<Rightarrow> 'm State" where
  "OnSessionStartTimer s =
     (let s = s\<lparr>SessionStartTimer := TimerStop (SessionStartTimer s)\<rparr>;
          s = s\<lparr>ClassRequests := ClassRequests s @ [CLASS_C]\<rparr>;
          s = s\<lparr>SessionStopTimer :=
                  TimerSetValue (SessionStopTimer s)
                    (push_bit (unat (SessionTimeout (McSessionData s 0))) 1 * 1000)\<rparr>
      in s\<lparr>SessionStopTimer := TimerStart (SessionStopTimer s)\<rparr>)"

definition OnSessionStopTimer :: "'m State \<Rightarrow> 'm State" where
  "OnSessionStopTimer s =
     (let s = s\<lparr>SessionStopTimer := TimerStop (SessionStopTimer s)\<rparr>
      in s\<lparr>ClassRequests := ClassRequests s @ [CLASS_A]\<rparr>)"

subsection \<open>Spec-side notions\<close>

text \<open>
  Modelled from the spec: the Group Store's \<open>isConfigured(slot)\<close>, which no function of
  the source computes: true iff the address held in the slot is not the sentinel 0.
\<close>

definition isConfigured :: "nat \<Rightarrow> 'm State \<Rightarrow> bool" where
  "isConfigured slot s = (McAddr (McGroupData (McSessionData s slot)) \<noteq> 0)"

text \<open>The value of a little-endian byte sequence, as a number.\<close>

primrec le_val :: "u8 list \<Rightarrow> nat" where
  "le_val [] = 0"
| "le_val (b # bs) = unat b + 256 * le_val bs"

subsection \<open>Observing a run\<close>

text \<open>What a run of the handler shows: \<open>observe f\<close> applies \<open>f\<close> to the state a run
  returns (a fault and a run that does not end are kept as they are); \<open>sent\<close> lists the
  buffers of the messages handed to \<^verbatim>\<open>OnSendRequest\<close>, oldest first; \<open>session\<close> reads a
  session record.\<close>

definition observe :: "('m State \<Rightarrow> 'a) \<Rightarrow> (fault + 'm State) option \<Rightarrow> (fault + 'a) option" where
  "observe f r = map_option (map_sum id f) r"

definition sent :: "'m State \<Rightarrow> u8 list list" where
  "sent s = map (\<lambda>(appData, _). AppBuffer appData) (SendRequests s)"

definition session :: "nat \<Rightarrow> 'm State \<Rightarrow> McSessionData_t" where
  "session slot s = McSessionData s slot"

subsection \<open>A concrete setting for running scenarios\<close>

text \<open>
  The zero-initialised globals of the file, with a host buffer and a world given, and a
  small stand-in for the collaborators: a table of four channels and a clock. Its setup
  stores the channel, its delete and its receive-parameter setup fail on a group whose
  address is 0 and leave the group identifier in the status byte.
\<close>

definition zero_session :: McSessionData_t where
  "zero_session =
     \<lparr>McGroupData = \<lparr>IdHeader = 0, McAddr = 0, McKeyEncrypted = replicate 16 0,
                      McFCountMin = 0, McFCountMax = 0\<rparr>,
      SessionState = SESSION_STOPED, SessionTime = 0, SessionTimeout = 0,
      RxParams = \<lparr>Frequency = 0, Datarate = 0\<rparr>\<rparr>"

definition init_state :: "u8 list \<Rightarrow> 'm \<Rightarrow> 'm State" where
  "init_state buf w =
     \<lparr>Initialized = True, IsRunning = True, DataBufferMaxSize = of_nat (length buf),
      DataBuffer = buf, McSessionData = (\<lambda>_. zero_session),
      SessionStartTimer = TimerInit, SessionStopTimer = TimerInit,
      mac = w, ClassRequests = [], SendRequests = []\<rparr>"

record World =
  Channels :: "nat \<Rightarrow> McChannelParams_t"
  Now :: u32

definition no_channel :: McChannelParams_t where
  "no_channel =
     \<lparr>Class = CLASS_A, IsEnabled = False, GroupID = 0, Address = 0, McKeyE = replicate 16 0,
      FCountMin = 0, FCountMax = 0, ChannelRxParams = \<lparr>Frequency = 0, Datarate = 0\<rparr>\<rparr>"

definition demo_channel :: "u8 \<Rightarrow> u32 \<Rightarrow> McChannelParams_t" where
  "demo_channel g a = no_channel\<lparr>IsEnabled := True, GroupID := g, Address := a\<rparr>"

definition demo_env :: "World Externals" where
  "demo_env =
     \<lparr>LoRaMacMcChannelSetup =
        (\<lambda>c w. (LORAMAC_STATUS_OK, w\<lparr>Channels := (Channels w)(unat (GroupID c) := c)\<rparr>)),
      LoRaMacMcChannelDelete =
        (\<lambda>g w. if Address (Channels w (unat g)) = 0 then (LORAMAC_STATUS_ERROR, w)
                else (LORAMAC_STATUS_OK, w\<lparr>Channels := (Channels w)(unat g := no_channel)\<rparr>)),
      LoRaMacMcChannelSetupRxParams =
        (\<lambda>g rx st w. if Address (Channels w (unat g)) = 0 then (LORAMAC_STATUS_ERROR, g, w)
                      else (LORAMAC_STATUS_OK, g, w)),
      MulticastChannelList = Channels,
      SysTimeGet = Now,
      UNIX_GPS_EPOCH_OFFSET = 315964800\<rparr>"

text \<open>A world at time \<open>t\<close> with no group, with group 0, and with groups 0 and 2.\<close>

definition world_empty :: "u32 \<Rightarrow> World" where
  "world_empty t = \<lparr>Channels = (\<lambda>_. no_channel), Now = t\<rparr>"

definition world_g0 :: "u32 \<Rightarrow> World" where
  "world_g0 t = \<lparr>Channels = (\<lambda>_. no_channel)(0 := demo_channel 0 0x11223344), Now = t\<rparr>"

definition world_g01 :: "u32 \<Rightarrow> World" where
  "world_g01 t =
     \<lparr>Channels = (\<lambda>_. no_channel)(0 := demo_channel 0 0x11223344, 1 := demo_channel 1 0x55667788),
      Now = t\<rparr>"

definition world_g02 :: "u32 \<Rightarrow> World" where
  "world_g02 t =
     \<lparr>Channels = (\<lambda>_. no_channel)(0 := demo_channel 0 0x11223344, 2 := demo_channel 2 0xAABBCCDD),
      Now = t\<rparr>"

section \<open>Auxiliary facts\<close>

lemma seq_Inr [simp]: "seq (Inr x) f = f x" by (simp add: seq_def)
lemma seq_Inl [simp]: "seq (Inl e) f = Inl e" by (simp add: seq_def)

lemma unat_u8_Suc: "unat (i::u8) < 255 \<Longrightarrow> unat (i + 1) = Suc (unat i)"
  by (simp add: unat_word_ariths)

lemma unat_u8_add: "unat (i::u8) + n < 256 \<Longrightarrow> unat (i + of_nat n) = unat i + n"
  by (simp add: unat_word_ariths unat_of_nat)

lemma wr_list_eq:
  "unat dbi + length vs \<le> length (DataBuffer s) \<Longrightarrow> unat dbi + length vs < 256 \<Longrightarrow>
   wr_list vs (dbi, s) =
     Inr (dbi + of_nat (length vs),
          s\<lparr>DataBuffer := take (unat dbi) (DataBuffer s) @ vs @ drop (unat dbi + length vs) (DataBuffer s)\<rparr>)"
proof (induction vs arbitrary: dbi s)
  case Nil
  then show ?case by simp
next
  case (Cons v vs)
  let ?s1 = "s\<lparr>DataBuffer := (DataBuffer s)[unat dbi := v]\<rparr>"
  have lt: "unat dbi < length (DataBuffer s)" and u: "unat (dbi + 1) = Suc (unat dbi)"
    using Cons.prems by (simp_all add: unat_u8_Suc)
  have w: "wr v (dbi, s) = Inr (dbi + 1, ?s1)"
    using lt by (simp add: wr_def)
  have ih: "wr_list vs (dbi + 1, ?s1) =
     Inr (dbi + 1 + of_nat (length vs),
          ?s1\<lparr>DataBuffer := take (unat (dbi + 1)) (DataBuffer ?s1) @ vs @ drop (unat (dbi + 1) + length vs) (DataBuffer ?s1)\<rparr>)"
    using Cons.prems u by (intro Cons.IH) simp_all
  have t: "take (Suc (unat dbi)) ((DataBuffer s)[unat dbi := v]) = take (unat dbi) (DataBuffer s) @ [v]"
    using lt by (simp add: take_Suc_conv_app_nth)
  show ?case
    using w ih u t by (simp add: add.assoc add.commute)
qed

lemma rd_n_eq:
  "unat ci + n \<le> length (Buffer ind) \<Longrightarrow> unat ci + n < 256 \<Longrightarrow>
   rd_n n ind ci = Inr (take n (drop (unat ci) (Buffer ind)), ci + of_nat n)"
proof (induction n arbitrary: ci)
  case 0
  then show ?case by simp
next
  case (Suc n)
  have u: "unat (ci + 1) = Suc (unat ci)"
    using Suc.prems by (simp add: unat_u8_Suc)
  have r: "rd ind ci = Inr (Buffer ind ! unat ci, ci + 1)"
    using Suc.prems by (simp add: rd_def)
  have ih: "rd_n n ind (ci + 1) = Inr (take n (drop (unat (ci + 1)) (Buffer ind)), ci + 1 + of_nat n)"
    using Suc.prems u by (intro Suc.IH) simp_all
  have d: "drop (unat ci) (Buffer ind) = Buffer ind ! unat ci # drop (Suc (unat ci)) (Buffer ind)"
    using Suc.prems by (simp add: Cons_nth_drop_Suc)
  show ?case
    using r ih u d by (simp add: add.assoc add.commute)
qed

declare wr_list.simps [simp del]


lemma u8_lt_256: "unat (b::u8) < 256"
  using unsigned_less [of b, where ?'a = nat] by simp

lemma byte_lane:
  "push_bit k (ucast (b::u8) :: u32) AND push_bit k (mask 8) = push_bit k (ucast b)"
  by (rule bit_word_eqI) (auto simp: bit_simps dest: bit_imp_le_length)

lemma lane_consts:
  "(0xFF::u32) = push_bit 0 (mask 8)" "(0xFF00::u32) = push_bit 8 (mask 8)"
  "(0xFF0000::u32) = push_bit 16 (mask 8)" "(0xFF000000::u32) = push_bit 24 (mask 8)"
  by (simp_all add: mask_eq_exp_minus_1 push_bit_eq_mult)

lemma masked_lane:
  "push_bit 0 (ucast (b::u8) :: u32) AND 0xFF = push_bit 0 (ucast b)"
  "push_bit 8 (ucast (b::u8) :: u32) AND 0xFF00 = push_bit 8 (ucast b)"
  "push_bit 16 (ucast (b::u8) :: u32) AND 0xFF0000 = push_bit 16 (ucast b)"
  "push_bit 24 (ucast (b::u8) :: u32) AND 0xFF000000 = push_bit 24 (ucast b)"
  unfolding lane_consts by (rule byte_lane)+

lemma unat_lane: "k \<le> 24 \<Longrightarrow> unat (push_bit k (ucast (b::u8)) :: u32) = unat b * 2 ^ k"
proof -
  assume k: "k \<le> 24"
  have "unat b * 2 ^ k < 2 ^ 8 * 2 ^ k"
    using u8_lt_256 [of b] by simp
  also have "\<dots> = 2 ^ (8 + k)" by (simp add: power_add)
  also have "\<dots> \<le> (2::nat) ^ 32" using k by (intro power_increasing) simp_all
  finally have "unat b * 2 ^ k < 2 ^ 32" .
  moreover have "unat (push_bit k (ucast b :: u32)) = take_bit LENGTH(32) (push_bit k (unat (ucast b :: u32)))"
    by (rule unsigned_push_bit_eq)
  moreover have "unat (ucast b :: u32) = unat b"
    by (simp add: unsigned_ucast_eq take_bit_nat_eq_self u8_lt_256 [THEN less_trans])
  ultimately show ?thesis
    by (simp add: push_bit_eq_mult take_bit_nat_eq_self)
qed

lemma u32_of_bytes_val: "unat (u32_of_bytes b0 b1 b2 b3) = le_val [b0, b1, b2, b3]"
proof -
  let ?x0 = "push_bit 0 (ucast b0) :: u32" and ?x1 = "push_bit 8 (ucast b1) :: u32"
  and ?x2 = "push_bit 16 (ucast b2) :: u32" and ?x3 = "push_bit 24 (ucast b3) :: u32"
  have v: "unat ?x0 = unat b0" "unat ?x1 = unat b1 * 256" "unat ?x2 = unat b2 * 65536"
    "unat ?x3 = unat b3 * 16777216"
    using unat_lane [of 0 b0] unat_lane [of 8 b1] unat_lane [of 16 b2] unat_lane [of 24 b3] by simp_all
  have b: "unat b0 < 256" "unat b1 < 256" "unat b2 < 256" "unat b3 < 256"
    by (rule u8_lt_256)+
  have 1: "unat (?x0 + ?x1) = unat ?x0 + unat ?x1"
    by (rule unat_add_lem [THEN iffD1]) (use v b in simp)
  have 2: "unat (?x0 + ?x1 + ?x2) = unat (?x0 + ?x1) + unat ?x2"
    by (rule unat_add_lem [THEN iffD1]) (use 1 v b in simp)
  have 3: "unat (?x0 + ?x1 + ?x2 + ?x3) = unat (?x0 + ?x1 + ?x2) + unat ?x3"
    by (rule unat_add_lem [THEN iffD1]) (use 1 2 v b in simp)
  have "u32_of_bytes b0 b1 b2 b3 = ?x0 + ?x1 + ?x2 + ?x3"
    unfolding u32_of_bytes_def masked_lane ..
  then show ?thesis
    using 1 2 3 v by simp
qed

lemma freq_of_bytes_val: "unat (freq_of_bytes b0 b1 b2) = le_val [b0, b1, b2] * 100"
proof -
  let ?x0 = "push_bit 0 (ucast b0) :: u32" and ?x1 = "push_bit 8 (ucast b1) :: u32"
  and ?x2 = "push_bit 16 (ucast b2) :: u32"
  have v: "unat ?x0 = unat b0" "unat ?x1 = unat b1 * 256" "unat ?x2 = unat b2 * 65536"
    using unat_lane [of 0 b0] unat_lane [of 8 b1] unat_lane [of 16 b2] by simp_all
  have b: "unat b0 < 256" "unat b1 < 256" "unat b2 < 256"
    by (rule u8_lt_256)+
  have o1: "?x0 + ?x1 = ?x0 OR ?x1"
    by (rule disjunctive_add) (auto simp: bit_simps dest: bit_imp_le_length)
  have o2: "(?x0 OR ?x1) + ?x2 = (?x0 OR ?x1) OR ?x2"
    by (rule disjunctive_add) (auto simp: bit_simps dest: bit_imp_le_length)
  have 1: "unat (?x0 + ?x1) = unat ?x0 + unat ?x1"
    by (rule unat_add_lem [THEN iffD1]) (use v b in simp)
  have 2: "unat (?x0 + ?x1 + ?x2) = unat (?x0 + ?x1) + unat ?x2"
    by (rule unat_add_lem [THEN iffD1]) (use 1 v b in simp)
  have s: "unat (?x0 + ?x1 + ?x2) = unat b0 + 256 * unat b1 + 65536 * unat b2"
    using 1 2 v by simp
  have e: "freq_of_bytes b0 b1 b2 = (?x0 + ?x1 + ?x2) * 100"
    unfolding freq_of_bytes_def masked_lane o1 o2 or.assoc ..
  have "unat ((?x0 + ?x1 + ?x2) * 100) = unat (?x0 + ?x1 + ?x2) * unat (100 :: u32)"
    by (rule unat_mult_lem [THEN iffD1]) (use s b in simp)
  then show ?thesis
    using e s by simp
qed

lemma of_nat_le_val4: "of_nat (le_val [b0, b1, b2, b3]) = u32_of_bytes b0 b1 b2 b3"
  using u32_of_bytes_val [of b0 b1 b2 b3, symmetric] by simp

lemma of_nat_le_val3: "of_nat (le_val [b0, b1, b2] * 100) = freq_of_bytes b0 b1 b2"
  using freq_of_bytes_val [of b0 b1 b2, symmetric] by simp

lemmas handler_defs =
  LmhpRemoteMcastSetupOnMcpsIndication_def cmd_loop.simps switch_cmd_def rd_def rd_u32_def rd_freq_def
  Let_def TimerStart_def TimerSetValue_def TimerStop_def

lemmas demo_defs =
  demo_env_def init_state_def world_empty_def world_g0_def world_g01_def world_g02_def demo_channel_def
  no_channel_def zero_session_def TimerInit_def u32_of_bytes_def freq_of_bytes_def

subsection \<open>Evaluating runs\<close>

lemma gid_lt4: "(gid::u8) < 4 \<Longrightarrow> gid AND 0x03 = gid"
  using less_mask_eq [of gid 2] by (simp add: mask_eq_exp_minus_1)

lemmas run_defs =
  handler_defs demo_defs case_PKG_VERSION_REQ_def case_MC_GROUP_STATUS_REQ_def
  case_MC_GROUP_SETUP_REQ_def case_MC_GROUP_DELETE_REQ_def case_MC_GROUP_CLASS_C_SESSION_REQ_def
  wr_list_eq rd_n_eq McGroupId_def observe_def sent_def session_def isConfigured_def
  TMcReqGroupMask_of_byte_def byte_of_TMcGroupStatusAns_def group_entry_def

lemma low_nibble_bits:
  "(b::u8) AND 0x0F = 0x0F \<Longrightarrow> bit b 0 \<and> bit b 1 \<and> bit b 2 \<and> bit b 3"
proof -
  assume a: "b AND 0x0F = 0x0F"
  have "bit (b AND 0x0F) n \<longleftrightarrow> bit (0x0F :: u8) n" for n using a by simp
  from this [of 0] this [of 1] this [of 2] this [of 3] show ?thesis
    by (simp add: bit_simps)
qed

subsection \<open>What a run of stores leaves in the answer buffer\<close>

lemma seq_eq_Inr: "seq r f = Inr y \<longleftrightarrow> (\<exists>x. r = Inr x \<and> f x = Inr y)"
  by (cases r) (simp_all add: seq_def)

lemma wr_Inr:
  assumes "wr v (dbi, s) = Inr (dbi', s')"
  shows "dbi' = dbi + 1" and "unat dbi < length (DataBuffer s)"
    and "s' = s\<lparr>DataBuffer := (DataBuffer s)[unat dbi := v]\<rparr>"
  using assms by (auto simp: wr_def split: if_splits)

lemma wr_list_Inr:
  assumes "wr_list vs (dbi, s) = Inr (dbi', s')"
  shows "dbi' = dbi + of_nat (length vs)"
    and "(\<And>i. i < length vs \<Longrightarrow> j \<noteq> unat (dbi + of_nat i)) \<Longrightarrow> DataBuffer s' ! j = DataBuffer s ! j"
  using assms
proof (induction vs arbitrary: dbi s)
  case Nil
  { case 1 then show ?case by (simp add: wr_list.simps) }
  { case 2 then show ?case by (simp add: wr_list.simps) }
next
  case (Cons v vs)
  { case 1
    from 1 obtain d1 s1 where w: "wr v (dbi, s) = Inr (d1, s1)" and r: "wr_list vs (d1, s1) = Inr (dbi', s')"
      by (auto simp: wr_list.simps seq_eq_Inr)
    from Cons.IH(1) [OF r] wr_Inr(1) [OF w] show ?case by simp }
  { case 2
    from 2(2) obtain d1 s1 where w: "wr v (dbi, s) = Inr (d1, s1)" and r: "wr_list vs (d1, s1) = Inr (dbi', s')"
      by (auto simp: wr_list.simps seq_eq_Inr)
    have d1: "d1 = dbi + 1" and s1: "s1 = s\<lparr>DataBuffer := (DataBuffer s)[unat dbi := v]\<rparr>"
      using wr_Inr [OF w] by simp_all
    have e: "d1 + of_nat i = dbi + of_nat (Suc i)" for i
      using d1 by simp
    have "j \<noteq> unat (d1 + of_nat i)" if "i < length vs" for i
      unfolding e using 2(1) [of "Suc i"] that by simp
    then have "DataBuffer s' ! j = DataBuffer s1 ! j"
      using Cons.IH(2) [OF _ r] by blast
    moreover have "j \<noteq> unat dbi" using 2(1) [of 0] by simp
    ultimately show ?case using s1 by simp }
qed

lemma wr_list_first:
  assumes "wr_list (v # vs) (dbi, s) = Inr (dbi', s')" and "length vs < 255"
  shows "DataBuffer s' ! unat dbi = v"
proof -
  from assms(1) obtain d1 s1 where w: "wr v (dbi, s) = Inr (d1, s1)" and r: "wr_list vs (d1, s1) = Inr (dbi', s')"
    by (auto simp: wr_list.simps seq_eq_Inr)
  have d1: "d1 = dbi + 1" and lt: "unat dbi < length (DataBuffer s)"
    and s1: "s1 = s\<lparr>DataBuffer := (DataBuffer s)[unat dbi := v]\<rparr>"
    using wr_Inr [OF w] by simp_all
  have "unat dbi \<noteq> unat (d1 + of_nat i)" if "i < length vs" for i
  proof -
    have "(of_nat (Suc i) :: u8) \<noteq> 0"
      using that assms(2) by (intro of_nat_neq_0) simp_all
    then have "dbi \<noteq> dbi + of_nat (Suc i)" by simp
    moreover have "d1 + of_nat i = dbi + of_nat (Suc i)" using d1 by simp
    ultimately show ?thesis by (simp only: word_unat_eq_iff [symmetric] not_False_eq_True)
  qed
  then have "DataBuffer s' ! unat dbi = DataBuffer s1 ! unat dbi"
    using wr_list_Inr(2) [OF r] by blast
  then show ?thesis using s1 lt by simp
qed

lemma unat_of_nat_u8: "n < 256 \<Longrightarrow> unat (of_nat n :: u8) = n"
  by (simp add: unat_of_nat)

lemma one_run:
  assumes "wr_list (opc # v # vs) (dbi, s) = Inr (dbi', s')" and "length vs \<le> 20"
  shows "DataBuffer s' ! unat dbi = opc \<and> 2 \<le> unat (dbi' - dbi) \<and> unat (dbi' - dbi) \<le> 22"
proof -
  have "dbi' - dbi = of_nat (Suc (Suc (length vs)))"
    using wr_list_Inr(1) [OF assms(1)] by simp
  then have "unat (dbi' - dbi) = Suc (Suc (length vs))"
    using assms(2) unat_of_nat_u8 [of "Suc (Suc (length vs))"] by simp
  moreover have "DataBuffer s' ! unat dbi = opc"
    using assms by (intro wr_list_first [OF assms(1)]) simp
  ultimately show ?thesis using assms(2) by simp
qed

lemma two_runs:
  assumes a: "wr_list [opc] (dbi, s) = Inr (d1, s1)"
    and b: "wr_list (v # vs) (d1, s2) = Inr (dbi', s')"
    and same: "DataBuffer s2 = DataBuffer s1"
    and len: "length vs \<le> 20"
  shows "DataBuffer s' ! unat dbi = opc \<and> 2 \<le> unat (dbi' - dbi) \<and> unat (dbi' - dbi) \<le> 22"
proof -
  have d1: "d1 = dbi + 1" using wr_list_Inr(1) [OF a] by simp
  have f: "DataBuffer s1 ! unat dbi = opc"
    using a by (intro wr_list_first [OF a]) simp
  have "dbi' = d1 + of_nat (Suc (length vs))" using wr_list_Inr(1) [OF b] by simp
  then have "dbi' - dbi = of_nat (Suc (Suc (length vs)))" using d1 by simp
  then have n: "unat (dbi' - dbi) = Suc (Suc (length vs))"
    using len unat_of_nat_u8 [of "Suc (Suc (length vs))"] by simp
  have "unat dbi \<noteq> unat (d1 + of_nat i)" if "i < length (v # vs)" for i
  proof -
    have "(of_nat (Suc i) :: u8) \<noteq> 0"
      using that len by (intro of_nat_neq_0) simp_all
    then have "dbi \<noteq> dbi + of_nat (Suc i)" by simp
    moreover have "d1 + of_nat i = dbi + of_nat (Suc i)" using d1 by simp
    ultimately show ?thesis by (simp only: word_unat_eq_iff [symmetric] not_False_eq_True)
  qed
  then have "DataBuffer s' ! unat dbi = DataBuffer s2 ! unat dbi"
    using wr_list_Inr(2) [OF b] by blast
  then show ?thesis using f same n len by simp
qed

subsection \<open>The answer of each case\<close>

lemma length_group_entry [simp]: "length (group_entry c) = 5"
  by (simp add: group_entry_def)

lemma case_PKG_VERSION_REQ_answer:
  assumes "case_PKG_VERSION_REQ (ci, dbi, s) = Inr (ci', dbi', s')"
  shows "DataBuffer s' ! unat dbi = 0x00 \<and> 2 \<le> unat (dbi' - dbi) \<and> unat (dbi' - dbi) \<le> 22"
proof -
  from assms have "wr_list [0x00, 0x02, 0x01] (dbi, s) = Inr (dbi', s')"
    by (auto simp: case_PKG_VERSION_REQ_def seq_eq_Inr)
  then show ?thesis by (rule one_run) simp
qed

lemma case_MC_GROUP_STATUS_REQ_answer:
  assumes "case_MC_GROUP_STATUS_REQ env ind (ci, dbi, s) = Inr (ci', dbi', s')"
  shows "DataBuffer s' ! unat dbi = 0x01 \<and> 2 \<le> unat (dbi' - dbi) \<and> unat (dbi' - dbi) \<le> 22"
proof -
  from assms obtain v vs where "wr_list (0x01 # v # vs) (dbi, s) = Inr (dbi', s')" and "length vs \<le> 20"
    by (auto simp: case_MC_GROUP_STATUS_REQ_def seq_eq_Inr Let_def)
  then show ?thesis by (rule one_run)
qed

lemma case_MC_GROUP_SETUP_REQ_answer:
  assumes "case_MC_GROUP_SETUP_REQ env ind (ci, dbi, s) = Inr (ci', dbi', s')"
  shows "dbi' = dbi \<or>
     DataBuffer s' ! unat dbi = 0x02 \<and> 2 \<le> unat (dbi' - dbi) \<and> unat (dbi' - dbi) \<le> 22"
proof (cases "dbi' = dbi")
  case False
  with assms obtain v s0 where "wr_list [0x02, v] (dbi, s0) = Inr (dbi', s')"
    by (auto simp: case_MC_GROUP_SETUP_REQ_def seq_eq_Inr Let_def split_beta split: if_splits)
  then have "DataBuffer s' ! unat dbi = 0x02 \<and> 2 \<le> unat (dbi' - dbi) \<and> unat (dbi' - dbi) \<le> 22"
    by (rule one_run) simp
  then show ?thesis by simp
qed simp

lemma case_MC_GROUP_DELETE_REQ_answer:
  assumes "case_MC_GROUP_DELETE_REQ env ind (ci, dbi, s) = Inr (ci', dbi', s')"
  shows "DataBuffer s' ! unat dbi = 0x03 \<and> 2 \<le> unat (dbi' - dbi) \<and> unat (dbi' - dbi) \<le> 22"
proof -
  from assms obtain d1 s1 s2 v where "wr_list [0x03] (dbi, s) = Inr (d1, s1)"
    and "wr_list [v] (d1, s2) = Inr (dbi', s')" and "DataBuffer s2 = DataBuffer s1"
    by (auto simp: case_MC_GROUP_DELETE_REQ_def seq_eq_Inr Let_def split_beta split: if_splits)
  then show ?thesis by (rule two_runs) simp
qed

lemma case_MC_GROUP_CLASS_C_SESSION_REQ_answer:
  assumes "case_MC_GROUP_CLASS_C_SESSION_REQ env ind (ci, dbi, s) = Inr (ci', dbi', s')"
  shows "DataBuffer s' ! unat dbi = 0x04 \<and> 2 \<le> unat (dbi' - dbi) \<and> unat (dbi' - dbi) \<le> 22"
proof -
  define shape where "shape \<longleftrightarrow>
    DataBuffer s' ! unat dbi = 0x04 \<and> 2 \<le> unat (dbi' - dbi) \<and> unat (dbi' - dbi) \<le> 22"
  have *: "shape" if "wr_list [0x04] (dbi, s0) = Inr (d1, s1)"
    and "wr_list (v # vs) (d1, s2) = Inr (dbi', s')" and "DataBuffer s2 = DataBuffer s1"
    and "length vs \<le> 20" for s0 d1 s1 s2 v vs
    unfolding shape_def using that by (rule two_runs)
  from assms have shape
    by (auto simp: case_MC_GROUP_CLASS_C_SESSION_REQ_def seq_eq_Inr Let_def split_beta
        split: if_splits elim!: *)
  then show ?thesis by (simp add: shape_def)
qed

subsection \<open>The stop timer value\<close>

lemma unat_2p_u32: "k < 32 \<Longrightarrow> unat (2 ^ k :: u32) = 2 ^ k"
proof -
  assume k: "k < 32"
  have "(2 ^ k :: u32) = of_nat (2 ^ k)" by simp
  moreover have "(2::nat) ^ k < 2 ^ 32" using k by (intro power_strict_increasing) simp_all
  ultimately show ?thesis by (simp only: unat_of_nat) simp
qed

lemma stop_timer_value:
  assumes "k \<le> 15"
  shows "unat (push_bit k (1::u32) * 1000) = 2 ^ k * 1000"
proof -
  have p: "unat (2 ^ k :: u32) = 2 ^ k" using assms by (intro unat_2p_u32) simp
  have "(2::nat) ^ k \<le> 2 ^ 15" using assms by (intro power_increasing) simp_all
  then have "unat (2 ^ k :: u32) * unat (1000 :: u32) < 2 ^ 32" using p by simp
  then have "unat ((2 ^ k :: u32) * 1000) = unat (2 ^ k :: u32) * unat (1000 :: u32)"
    using unat_mult_lem [of "2 ^ k :: u32" 1000] by simp
  then show ?thesis using p by simp
qed

subsection \<open>An invariant of the command loop\<close>

lemma wr_list_McSessionData:
  "wr_list vs (dbi, s) = Inr (dbi', s') \<Longrightarrow> McSessionData s' = McSessionData s"
proof (induction vs arbitrary: dbi s)
  case Nil
  then show ?case by (simp add: wr_list.simps)
next
  case (Cons v vs)
  then obtain d1 s1 where w: "wr v (dbi, s) = Inr (d1, s1)" and r: "wr_list vs (d1, s1) = Inr (dbi', s')"
    by (auto simp: wr_list.simps seq_eq_Inr)
  from Cons.IH [OF r] wr_Inr(3) [OF w] show ?case by simp
qed

lemma switch_cmd_SessionState:
  assumes "switch_cmd env ind v = Inr v'"
  shows "SessionState (McSessionData (snd (snd v')) i) = SessionState (McSessionData (snd (snd v)) i)"
  using assms
  by (cases v)
     (auto simp: switch_cmd_def case_PKG_VERSION_REQ_def case_MC_GROUP_STATUS_REQ_def
        case_MC_GROUP_SETUP_REQ_def case_MC_GROUP_DELETE_REQ_def
        case_MC_GROUP_CLASS_C_SESSION_REQ_def seq_eq_Inr Let_def split_beta
        split: if_splits dest!: wr_list_McSessionData)

lemma cmd_loop_preserves_aux:
  assumes "cmd_loop env ind v = Some r"
  shows "\<forall>d s'. r = Inr (d, s') \<longrightarrow> Q (snd (snd v)) \<longrightarrow>
      (\<forall>v v'. switch_cmd env ind v = Inr v' \<longrightarrow> Q (snd (snd v)) \<longrightarrow> Q (snd (snd v'))) \<longrightarrow> Q s'"
proof (rule cmd_loop.raw_induct [where P = "\<lambda>env ind v r. \<forall>d s'. r = Inr (d, s') \<longrightarrow> Q (snd (snd v)) \<longrightarrow>
      (\<forall>v v'. switch_cmd env ind v = Inr v' \<longrightarrow> Q (snd (snd v)) \<longrightarrow> Q (snd (snd v'))) \<longrightarrow> Q s'", OF _ assms],
    goal_cases)
  case (1 loop env ind v r)
  show ?case
  proof (intro allI impI)
    fix d s'
    assume r: "r = Inr (d, s')" and q: "Q (snd (snd v))"
      and step: "\<forall>v v'. switch_cmd env ind v = Inr v' \<longrightarrow> Q (snd (snd v)) \<longrightarrow> Q (snd (snd v'))"
    obtain ci dbi s where v: "v = (ci, dbi, s)" by (cases v)
    show "Q s'"
    proof (cases "ci < BufferSize ind")
      case True
      with 1(2) v r obtain v' where sw: "switch_cmd env ind (ci, dbi, s) = Inr v'"
        and l: "loop env ind v' = Some r"
        by (auto split: sum.splits)
      have "Q (snd (snd v'))"
        using step [rule_format, OF sw] q v by simp
      then show ?thesis using 1(1) [OF l] r step by blast
    next
      case False
      with 1(2) v r q show ?thesis by simp
    qed
  qed
qed

lemma cmd_loop_preserves:
  assumes "cmd_loop env ind v = Some (Inr (d, s'))"
    and "Q (snd (snd v))"
    and "\<And>v v'. switch_cmd env ind v = Inr v' \<Longrightarrow> Q (snd (snd v)) \<Longrightarrow> Q (snd (snd v'))"
  shows "Q s'"
  using cmd_loop_preserves_aux [OF assms(1), of Q] assms(2,3) by blast

lemma handler_SessionState:
  assumes "LmhpRemoteMcastSetupOnMcpsIndication env ind s = Some (Inr s')"
  shows "SessionState (McSessionData s' i) = SessionState (McSessionData s i)"
proof -
  from assms obtain d s1 where l: "cmd_loop env ind (0, 0, s) = Some (Inr (d, s1))"
    and s': "McSessionData s' = McSessionData s1"
    by (auto simp: LmhpRemoteMcastSetupOnMcpsIndication_def Let_def
        split: option.splits sum.splits if_splits)
  have "SessionState (McSessionData s1 i) = SessionState (McSessionData s i)"
    by (rule cmd_loop_preserves [OF l,
          where Q = "\<lambda>x. SessionState (McSessionData x i) = SessionState (McSessionData s i)"])
       (simp_all add: switch_cmd_SessionState)
  then show ?thesis using s' by simp
qed

lemma low4_le: "unat ((b::u8) AND 0x0F) \<le> 15"
  using word_and_le1 [of b "0x0F", THEN word_le_nat_alt [THEN iffD1]] by simp

lemma switch_cmd_SessionTimeout:
  assumes "switch_cmd env ind v = Inr v'"
    and "\<forall>i. unat (SessionTimeout (McSessionData (snd (snd v)) i)) \<le> 15"
  shows "\<forall>i. unat (SessionTimeout (McSessionData (snd (snd v')) i)) \<le> 15"
  using assms
  by (cases v)
     (auto simp: switch_cmd_def case_PKG_VERSION_REQ_def case_MC_GROUP_STATUS_REQ_def
        case_MC_GROUP_SETUP_REQ_def case_MC_GROUP_DELETE_REQ_def
        case_MC_GROUP_CLASS_C_SESSION_REQ_def seq_eq_Inr Let_def split_beta low4_le
        split: if_splits dest!: wr_list_McSessionData)

lemma handler_SessionTimeout:
  assumes "LmhpRemoteMcastSetupOnMcpsIndication env ind s = Some (Inr s')"
    and "\<forall>i. unat (SessionTimeout (McSessionData s i)) \<le> 15"
  shows "\<forall>i. unat (SessionTimeout (McSessionData s' i)) \<le> 15"
proof -
  from assms(1) obtain d s1 where l: "cmd_loop env ind (0, 0, s) = Some (Inr (d, s1))"
    and s': "McSessionData s' = McSessionData s1"
    by (auto simp: LmhpRemoteMcastSetupOnMcpsIndication_def Let_def
        split: option.splits sum.splits if_splits)
  have "\<forall>i. unat (SessionTimeout (McSessionData s1 i)) \<le> 15"
    by (rule cmd_loop_preserves [OF l,
          where Q = "\<lambda>x. \<forall>i. unat (SessionTimeout (McSessionData x i)) \<le> 15"])
       (use assms(2) switch_cmd_SessionTimeout in simp_all)
  then show ?thesis using s' by simp
qed

subsection \<open>The bytes of a group entry\<close>

lemma byte_of_u32:
  "unat (ucast (drop_bit k (w::u32) AND 0xFF) :: u8) = (unat w div 2 ^ k) mod 256"
proof -
  have "drop_bit k w AND 0xFF = take_bit 8 (drop_bit k w)"
    by (simp add: take_bit_eq_mask mask_eq_exp_minus_1)
  moreover have "take_bit 32 (unat w) = unat w"
    using unsigned_less [of w, where ?'a = nat] by (simp add: take_bit_nat_eq_self)
  ultimately have "unat (ucast (drop_bit k w AND 0xFF) :: u8) = take_bit 8 (take_bit 8 (drop_bit k (unat w)))"
    by (simp add: unsigned_ucast_eq unsigned_take_bit_eq unsigned_drop_bit_eq)
  then show ?thesis by (simp add: take_bit_eq_mod drop_bit_eq_div)
qed

lemma le_val_bytes_of_nat:
  assumes "n < 4294967296"
  shows "n mod 256 + 256 * (n div 256 mod 256 + 256 * (n div 65536 mod 256 + 256 * (n div 16777216 mod 256))) = (n::nat)"
proof -
  have a: "n div 65536 = n div 256 div 256" and b: "n div 16777216 = n div 256 div 256 div 256"
    by (simp_all add: div_mult2_eq [symmetric])
  have c: "n div 256 div 256 div 256 < 256"
    using assms by (simp add: div_mult2_eq [symmetric] div_less_iff_less_mult)
  have 1: "n = n mod 256 + 256 * (n div 256)" by simp
  have 2: "n div 256 = n div 256 mod 256 + 256 * (n div 256 div 256)" by simp
  have 3: "n div 256 div 256 = n div 256 div 256 mod 256 + 256 * (n div 256 div 256 div 256)" by simp
  show ?thesis
    unfolding a b using c 1 2 3 by simp
qed

lemma group_entry_val:
  "hd (group_entry c) = GroupID c \<and> le_val (tl (group_entry c)) = unat (Address c)"
proof -
  let ?n = "unat (Address c)"
  have "?n < 2 ^ 32" using unsigned_less [of "Address c", where ?'a = nat] by simp
  then have n: "?n < 4294967296" by simp
  have b: "unat (ucast (drop_bit 0 (Address c) AND 0xFF) :: u8) = ?n mod 256"
    "unat (ucast (drop_bit 8 (Address c) AND 0xFF) :: u8) = ?n div 256 mod 256"
    "unat (ucast (drop_bit 16 (Address c) AND 0xFF) :: u8) = ?n div 65536 mod 256"
    "unat (ucast (drop_bit 24 (Address c) AND 0xFF) :: u8) = ?n div 16777216 mod 256"
    using byte_of_u32 [of 0 "Address c"] byte_of_u32 [of 8 "Address c"]
      byte_of_u32 [of 16 "Address c"] byte_of_u32 [of 24 "Address c"] by simp_all
  have "le_val (tl (group_entry c)) =
      ?n mod 256 + 256 * (?n div 256 mod 256 + 256 * (?n div 65536 mod 256 + 256 * (?n div 16777216 mod 256)))"
    by (simp only: group_entry_def list.sel le_val.simps b mult_0_right add_0_right)
  also have "\<dots> = ?n" by (rule le_val_bytes_of_nat [OF n])
  finally have "le_val (tl (group_entry c)) = ?n" .
  moreover have "hd (group_entry c) = GroupID c" by (simp add: group_entry_def)
  ultimately show ?thesis by blast
qed

subsection \<open>The group setup case on a reserved identifier\<close>

lemma group_setup_reserved_id_case:
  assumes "rd ind ci = Inr (gid, ci')" and "4 \<le> gid"
  shows "case_MC_GROUP_SETUP_REQ env ind (ci, dbi, s) = Inr (ci', dbi, s)"
  using assms by (simp add: case_MC_GROUP_SETUP_REQ_def)

section \<open>The claims\<close>

text \<open>
  C1 (as amended). For the group status command (opcode 0x01): when the MAC context
  holds a non-zero address for groups 0 and 2 and the address 0 for groups 1 and 3,
  a request whose mask is 1111 is answered by the opcode, the status byte \<open>0x4A\<close> and
  exactly two entries, slot 0 then slot 2, each the group identifier followed by the
  address in four bytes, least significant first (\<open>group_entry_val\<close>). The four low
  bits of the status byte are 1010: the bit-field of slot 0 is bit 3 of the byte and
  that of slot 2 is bit 1, so the bits 1 and 3 are set, not the bits 0 and 2.
\<close>

theorem group_status_answer:
  assumes mask: "b AND 0x0F = 0x0F"
    and cap: "12 \<le> length (DataBuffer s)"
    and g0: "Address (MulticastChannelList env (mac s) 0) \<noteq> 0"
    and g1: "Address (MulticastChannelList env (mac s) 1) = 0"
    and g2: "Address (MulticastChannelList env (mac s) 2) \<noteq> 0"
    and g3: "Address (MulticastChannelList env (mac s) 3) = 0"
  shows "\<exists>s'. LmhpRemoteMcastSetupOnMcpsIndication env \<lparr>Buffer = [0x01, b], BufferSize = 2\<rparr> s = Some (Inr s')
     \<and> SendRequests s' = SendRequests s @
           [(\<lparr>AppBuffer = [0x01, 0x4A] @ group_entry (MulticastChannelList env (mac s) 0)
                                          @ group_entry (MulticastChannelList env (mac s) 2),
              AppBufferSize = 12, Port = 200\<rparr>, LORAMAC_HANDLER_UNCONFIRMED_MSG)]
     \<and> (0x4A :: u8) AND 0x0F = 0x0A"
  using cap g0 g1 g2 g3 low_nibble_bits [OF mask]
  by (simp add: handler_defs case_MC_GROUP_STATUS_REQ_def wr_list_eq
      TMcReqGroupMask_of_byte_def byte_of_TMcGroupStatusAns_def group_entry_def)

text \<open>An instance: the groups 0 and 2 of the stand-in are configured; the reserved bits
  of the request are set as well.\<close>

theorem group_status_answer_witness:
  "(0xFF :: u8) AND 0x0F = 0x0F
   \<and> 12 \<le> length (DataBuffer (init_state (replicate 12 0) (world_g02 0)))
   \<and> Address (MulticastChannelList demo_env (mac (init_state (replicate 12 0) (world_g02 0))) 0) \<noteq> 0
   \<and> Address (MulticastChannelList demo_env (mac (init_state (replicate 12 0) (world_g02 0))) 1) = 0
   \<and> Address (MulticastChannelList demo_env (mac (init_state (replicate 12 0) (world_g02 0))) 2) \<noteq> 0
   \<and> Address (MulticastChannelList demo_env (mac (init_state (replicate 12 0) (world_g02 0))) 3) = 0
   \<and> (\<exists>s'. LmhpRemoteMcastSetupOnMcpsIndication demo_env \<lparr>Buffer = [0x01, 0xFF], BufferSize = 2\<rparr>
              (init_state (replicate 12 0) (world_g02 0)) = Some (Inr s')
         \<and> SendRequests s' = SendRequests (init_state (replicate 12 0) (world_g02 0)) @
             [(\<lparr>AppBuffer = [0x01, 0x4A]
                   @ group_entry (MulticastChannelList demo_env (mac (init_state (replicate 12 0) (world_g02 0))) 0)
                   @ group_entry (MulticastChannelList demo_env (mac (init_state (replicate 12 0) (world_g02 0))) 2),
                AppBufferSize = 12, Port = 200\<rparr>, LORAMAC_HANDLER_UNCONFIRMED_MSG)]
         \<and> (0x4A :: u8) AND 0x0F = 0x0A)"
proof -
  let ?s = "init_state (replicate 12 0) (world_g02 0)"
  have h1: "(0xFF :: u8) AND 0x0F = 0x0F" by simp
  have h2: "12 \<le> length (DataBuffer ?s)" by (simp add: init_state_def)
  have h3: "Address (MulticastChannelList demo_env (mac ?s) 0) \<noteq> 0" by (simp add: demo_defs)
  have h4: "Address (MulticastChannelList demo_env (mac ?s) 1) = 0" by (simp add: demo_defs)
  have h5: "Address (MulticastChannelList demo_env (mac ?s) 2) \<noteq> 0" by (simp add: demo_defs)
  have h6: "Address (MulticastChannelList demo_env (mac ?s) 3) = 0" by (simp add: demo_defs)
  show ?thesis
    using h1 h2 h3 h4 h5 h6 group_status_answer [OF h1 h2 h3 h4 h5 h6] by blast
qed

text \<open>C1 as stated fails: in that run the answer's status byte is \<open>0x4A\<close>, whose four
  low bits are 1010 and not 0101.\<close>

theorem group_status_mask_counterexample:
  "observe sent
     (LmhpRemoteMcastSetupOnMcpsIndication demo_env \<lparr>Buffer = [0x01, 0x0F], BufferSize = 2\<rparr>
        (init_state (replicate 12 0) (world_g02 0))) =
     Some (Inr [[0x01, 0x4A, 0x00, 0x44, 0x33, 0x22, 0x11, 0x02, 0xDD, 0xCC, 0xBB, 0xAA]])
   \<and> (0x4A :: u8) AND 0x0F \<noteq> 0x05"
  by (simp add: run_defs)

text \<open>
  C2. For every class C session command (opcode 0x04): when the MAC layer accepts the
  receive parameters, the current GPS time is \<open>T\<close> and the session time decoded from the
  command is \<open>T - UNIX_GPS_EPOCH_OFFSET + 50\<close>, the start timer is armed for 50 seconds
  (50000 ms) and the answer is the opcode followed by \<open>[status, 50, 0, 0]\<close>: the status
  byte left by the MAC layer, then the time to start in three bytes, least significant
  first.
\<close>

theorem class_c_session_future_start:
  assumes ind: "ind = \<lparr>Buffer = [0x04, idb, t0, t1, t2, t3, tmo, f0, f1, f2, dr], BufferSize = 11\<rparr>"
    and cap: "5 \<le> length (DataBuffer s)"
    and mac: "LoRaMacMcChannelSetupRxParams env (idb AND 0x03)
                \<lparr>Frequency = freq_of_bytes f0 f1 f2, Datarate = dr\<rparr> 0 (mac s) = (LORAMAC_STATUS_OK, status, m)"
    and now: "SysTimeGet env m = T"
    and time: "u32_of_bytes t0 t1 t2 t3 = T - UNIX_GPS_EPOCH_OFFSET env + 50"
  shows "\<exists>s'. LmhpRemoteMcastSetupOnMcpsIndication env ind s = Some (Inr s')
     \<and> SessionStartTimer s' = \<lparr>ReloadValue = 50 * 1000, IsStarted = True\<rparr>
     \<and> SendRequests s' = SendRequests s @
           [(\<lparr>AppBuffer = [0x04, status, 50, 0, 0], AppBufferSize = 5, Port = 200\<rparr>,
             LORAMAC_HANDLER_UNCONFIRMED_MSG)]"
  using cap mac now time unfolding ind
  by (simp add: handler_defs case_MC_GROUP_CLASS_C_SESSION_REQ_def wr_list_eq)

text \<open>An instance: group 0 is known to the MAC stand-in, the clock is 256 seconds after
  the GPS epoch offset and the command asks for a start 306 seconds after the Unix
  epoch.\<close>

theorem class_c_session_future_start_witness:
  "5 \<le> length (DataBuffer (init_state (replicate 8 0) (world_g0 315965056)))
   \<and> LoRaMacMcChannelSetupRxParams demo_env (0x00 AND 0x03)
        \<lparr>Frequency = freq_of_bytes 0xD2 0xAD 0x84, Datarate = 0\<rparr> 0
        (mac (init_state (replicate 8 0) (world_g0 315965056))) = (LORAMAC_STATUS_OK, 0, world_g0 315965056)
   \<and> SysTimeGet demo_env (world_g0 315965056) = 315965056
   \<and> u32_of_bytes 0x32 0x01 0x00 0x00 = 315965056 - UNIX_GPS_EPOCH_OFFSET demo_env + 50
   \<and> (\<exists>s'. LmhpRemoteMcastSetupOnMcpsIndication demo_env
              \<lparr>Buffer = [0x04, 0x00, 0x32, 0x01, 0x00, 0x00, 0x03, 0xD2, 0xAD, 0x84, 0x00], BufferSize = 11\<rparr>
              (init_state (replicate 8 0) (world_g0 315965056)) = Some (Inr s')
         \<and> SessionStartTimer s' = \<lparr>ReloadValue = 50 * 1000, IsStarted = True\<rparr>
         \<and> SendRequests s' = SendRequests (init_state (replicate 8 0) (world_g0 315965056)) @
               [(\<lparr>AppBuffer = [0x04, 0, 50, 0, 0], AppBufferSize = 5, Port = 200\<rparr>,
                 LORAMAC_HANDLER_UNCONFIRMED_MSG)])"
proof -
  have h1: "5 \<le> length (DataBuffer (init_state (replicate 8 0) (world_g0 315965056)))"
    by (simp add: init_state_def)
  have h2: "LoRaMacMcChannelSetupRxParams demo_env (0x00 AND 0x03)
        \<lparr>Frequency = freq_of_bytes 0xD2 0xAD 0x84, Datarate = 0\<rparr> 0
        (mac (init_state (replicate 8 0) (world_g0 315965056))) = (LORAMAC_STATUS_OK, 0, world_g0 315965056)"
    by (simp add: demo_defs)
  have h3: "SysTimeGet demo_env (world_g0 315965056) = 315965056"
    by (simp add: demo_defs)
  have h4: "u32_of_bytes 0x32 0x01 0x00 0x00 = 315965056 - UNIX_GPS_EPOCH_OFFSET demo_env + 50"
    by (simp add: demo_defs)
  show ?thesis
    using h1 h2 h3 h4 class_c_session_future_start [OF refl h1 h2 h3 h4] by blast
qed

text \<open>
  C3. The claim: for every inbound buffer that consists of a group setup command
  (opcode 0x02) whose identifier byte is at least 4, the group store (group and session
  data of the four slots) is unchanged and no answer byte is appended. The source leaves
  the case right after the identifier (\<open>group_setup_reserved_id_case\<close>), with \<^verbatim>\<open>cmdIndex\<close>
  on the first of the 28 bytes of the command that follow, and the loop decodes them as
  commands. Here the four address
  bytes and the key of the rejected command read as a class C session command for
  group 1: the session record of slot 1 is overwritten and the answer \<open>[0x04, 0x01]\<close> is
  sent.
\<close>

theorem group_setup_reserved_id_payload_decoded:
  "observe sent
     (LmhpRemoteMcastSetupOnMcpsIndication demo_env
        \<lparr>Buffer = [0x02, 0x04, 0x04, 0x01, 0x32, 0x01, 0x00, 0x00, 0x03, 0xD2, 0xAD, 0x84, 0x05,
                    0xFF, 0xFF, 0xFF, 0xFF, 0xFF, 0xFF, 0xFF, 0xFF, 0xFF, 0xFF, 0xFF, 0xFF, 0xFF,
                    0xFF, 0xFF, 0xFF, 0xFF], BufferSize = 30\<rparr>
        (init_state (replicate 8 0) (world_empty 0))) = Some (Inr [[0x04, 0x01]])
   \<and> observe (session 1)
     (LmhpRemoteMcastSetupOnMcpsIndication demo_env
        \<lparr>Buffer = [0x02, 0x04, 0x04, 0x01, 0x32, 0x01, 0x00, 0x00, 0x03, 0xD2, 0xAD, 0x84, 0x05,
                    0xFF, 0xFF, 0xFF, 0xFF, 0xFF, 0xFF, 0xFF, 0xFF, 0xFF, 0xFF, 0xFF, 0xFF, 0xFF,
                    0xFF, 0xFF, 0xFF, 0xFF], BufferSize = 30\<rparr>
        (init_state (replicate 8 0) (world_empty 0))) =
       Some (Inr (zero_session\<lparr>SessionTime := 315965106, SessionTimeout := 3,
                                RxParams := \<lparr>Frequency = 869525000, Datarate = 5\<rparr>\<rparr>))
   \<and> session 1 (init_state (replicate 8 0) (world_empty 0)) = zero_session"
  by (simp add: run_defs)

text \<open>
  C4 (as amended). For every group setup command with an identifier below 4, when the
  MAC layer reports success: after processing, the address, the 16-byte key and the two
  frame counter bounds held in the slot of that identifier are the fields of the
  request (address and bounds read as four bytes, least significant first), the answer
  is the opcode and the identifier, and \<open>isConfigured\<close> of the slot is true exactly when
  the address of the request is not 0.
\<close>

theorem group_setup_stored:
  assumes ind: "ind = \<lparr>Buffer = [0x02, gid, a0, a1, a2, a3] @ key @ [n0, n1, n2, n3, x0, x1, x2, x3],
                        BufferSize = 30\<rparr>"
    and key: "length key = 16"
    and gid: "gid < 4"
    and cap: "2 \<le> length (DataBuffer s)"
    and mac: "fst (LoRaMacMcChannelSetup env
                 \<lparr>Class = CLASS_C, IsEnabled = True, GroupID = gid,
                  Address = of_nat (le_val [a0, a1, a2, a3]), McKeyE = key,
                  FCountMin = of_nat (le_val [n0, n1, n2, n3]),
                  FCountMax = of_nat (le_val [x0, x1, x2, x3]),
                  ChannelRxParams = \<lparr>Frequency = 0, Datarate = 0\<rparr>\<rparr> (mac s)) = LORAMAC_STATUS_OK"
  shows "\<exists>s'. LmhpRemoteMcastSetupOnMcpsIndication env ind s = Some (Inr s')
     \<and> McGroupData (McSessionData s' (unat gid)) =
         \<lparr>IdHeader = gid, McAddr = of_nat (le_val [a0, a1, a2, a3]), McKeyEncrypted = key,
          McFCountMin = of_nat (le_val [n0, n1, n2, n3]),
          McFCountMax = of_nat (le_val [x0, x1, x2, x3])\<rparr>
     \<and> (isConfigured (unat gid) s' \<longleftrightarrow> le_val [a0, a1, a2, a3] \<noteq> 0)
     \<and> SendRequests s' = SendRequests s @
           [(\<lparr>AppBuffer = [0x02, gid], AppBufferSize = 2, Port = 200\<rparr>,
             LORAMAC_HANDLER_UNCONFIRMED_MSG)]"
proof -
  have nz: "(u32_of_bytes a0 a1 a2 a3 \<noteq> 0) = (le_val [a0, a1, a2, a3] \<noteq> 0)"
    using u32_of_bytes_val [of a0 a1 a2 a3] by (metis unat_eq_0)
  have le: "\<not> 4 \<le> gid" using gid by simp
  show ?thesis
    using cap mac key le nz unfolding ind of_nat_le_val4
    by (simp add: handler_defs case_MC_GROUP_SETUP_REQ_def wr_list_eq rd_n_eq
        McGroupId_def gid_lt4 [OF gid] isConfigured_def split_beta nth_append)
qed

text \<open>An instance: group 2 with the address \<open>0x11223344\<close>.\<close>

theorem group_setup_stored_witness:
  "length (replicate 16 (0x2A :: u8)) = 16 \<and> (2 :: u8) < 4
   \<and> 2 \<le> length (DataBuffer (init_state (replicate 4 0) (world_empty 0)))
   \<and> fst (LoRaMacMcChannelSetup demo_env
                 \<lparr>Class = CLASS_C, IsEnabled = True, GroupID = 2,
                  Address = of_nat (le_val [0x44, 0x33, 0x22, 0x11]), McKeyE = replicate 16 0x2A,
                  FCountMin = of_nat (le_val [0x00, 0x00, 0x00, 0x00]),
                  FCountMax = of_nat (le_val [0xFF, 0x00, 0x00, 0x00]),
                  ChannelRxParams = \<lparr>Frequency = 0, Datarate = 0\<rparr>\<rparr>
                 (mac (init_state (replicate 4 0) (world_empty 0)))) = LORAMAC_STATUS_OK
   \<and> (\<exists>s'. LmhpRemoteMcastSetupOnMcpsIndication demo_env
              \<lparr>Buffer = [0x02, 2, 0x44, 0x33, 0x22, 0x11] @ replicate 16 0x2A
                         @ [0x00, 0x00, 0x00, 0x00, 0xFF, 0x00, 0x00, 0x00], BufferSize = 30\<rparr>
              (init_state (replicate 4 0) (world_empty 0)) = Some (Inr s')
         \<and> McGroupData (McSessionData s' (unat (2 :: u8))) =
             \<lparr>IdHeader = 2, McAddr = of_nat (le_val [0x44, 0x33, 0x22, 0x11]),
              McKeyEncrypted = replicate 16 0x2A,
              McFCountMin = of_nat (le_val [0x00, 0x00, 0x00, 0x00]),
              McFCountMax = of_nat (le_val [0xFF, 0x00, 0x00, 0x00])\<rparr>
         \<and> (isConfigured (unat (2 :: u8)) s' \<longleftrightarrow> le_val [0x44, 0x33, 0x22, 0x11] \<noteq> 0)
         \<and> SendRequests s' = SendRequests (init_state (replicate 4 0) (world_empty 0)) @
               [(\<lparr>AppBuffer = [0x02, 2], AppBufferSize = 2, Port = 200\<rparr>,
                 LORAMAC_HANDLER_UNCONFIRMED_MSG)])"
proof -
  have h1: "length (replicate 16 (0x2A :: u8)) = 16" by simp
  have h2: "(2 :: u8) < 4" by simp
  have h3: "2 \<le> length (DataBuffer (init_state (replicate 4 0) (world_empty 0)))"
    by (simp add: init_state_def)
  have h4: "fst (LoRaMacMcChannelSetup demo_env
                 \<lparr>Class = CLASS_C, IsEnabled = True, GroupID = 2,
                  Address = of_nat (le_val [0x44, 0x33, 0x22, 0x11]), McKeyE = replicate 16 0x2A,
                  FCountMin = of_nat (le_val [0x00, 0x00, 0x00, 0x00]),
                  FCountMax = of_nat (le_val [0xFF, 0x00, 0x00, 0x00]),
                  ChannelRxParams = \<lparr>Frequency = 0, Datarate = 0\<rparr>\<rparr>
                 (mac (init_state (replicate 4 0) (world_empty 0)))) = LORAMAC_STATUS_OK"
    by (simp add: demo_env_def)
  show ?thesis
    using h1 h2 h3 h4 group_setup_stored [OF refl h1 h2 h3 h4] by blast
qed

text \<open>C4 as stated fails for a request whose address is 0: the MAC stand-in reports
  success (the answer is \<open>[0x02, 0x00]\<close>, without the error bit) and slot 0 is not
  configured afterwards.\<close>

theorem group_setup_zero_address_counterexample:
  "observe (isConfigured 0)
     (LmhpRemoteMcastSetupOnMcpsIndication demo_env
        \<lparr>Buffer = [0x02, 0x00, 0x00, 0x00, 0x00, 0x00] @ replicate 16 0x2A
                   @ [0x00, 0x00, 0x00, 0x00, 0xFF, 0x00, 0x00, 0x00], BufferSize = 30\<rparr>
        (init_state (replicate 4 0) (world_empty 0))) = Some (Inr False)
   \<and> observe sent
     (LmhpRemoteMcastSetupOnMcpsIndication demo_env
        \<lparr>Buffer = [0x02, 0x00, 0x00, 0x00, 0x00, 0x00] @ replicate 16 0x2A
                   @ [0x00, 0x00, 0x00, 0x00, 0xFF, 0x00, 0x00, 0x00], BufferSize = 30\<rparr>
        (init_state (replicate 4 0) (world_empty 0))) = Some (Inr [[0x02, 0x00]])"
  by (simp add: run_defs nth_append)

text \<open>
  C5. For every class C session command: when the MAC layer accepts the receive
  parameters and the time to start (the stored GPS session time minus the current GPS
  time, as a signed 32-bit value) is not positive, the answer is the opcode followed by
  the single status byte, with bit \<open>0x10\<close> set, and neither timer is touched.
\<close>

theorem class_c_session_past_start:
  assumes ind: "ind = \<lparr>Buffer = [0x04, idb, t0, t1, t2, t3, tmo, f0, f1, f2, dr], BufferSize = 11\<rparr>"
    and cap: "2 \<le> length (DataBuffer s)"
    and mac: "LoRaMacMcChannelSetupRxParams env (idb AND 0x03)
                \<lparr>Frequency = freq_of_bytes f0 f1 f2, Datarate = dr\<rparr> 0 (mac s) = (LORAMAC_STATUS_OK, status, m)"
    and past: "sint (u32_of_bytes t0 t1 t2 t3 + UNIX_GPS_EPOCH_OFFSET env - SysTimeGet env m) \<le> 0"
  shows "\<exists>s'. LmhpRemoteMcastSetupOnMcpsIndication env ind s = Some (Inr s')
     \<and> SendRequests s' = SendRequests s @
           [(\<lparr>AppBuffer = [0x04, status OR 0x10], AppBufferSize = 2, Port = 200\<rparr>,
             LORAMAC_HANDLER_UNCONFIRMED_MSG)]
     \<and> bit (status OR 0x10) 4
     \<and> SessionStartTimer s' = SessionStartTimer s
     \<and> SessionStopTimer s' = SessionStopTimer s"
  using cap mac past unfolding ind
  by (simp add: handler_defs case_MC_GROUP_CLASS_C_SESSION_REQ_def wr_list_eq bit_simps)

text \<open>An instance: the session time is 50 seconds before the clock.\<close>

theorem class_c_session_past_start_witness:
  "2 \<le> length (DataBuffer (init_state (replicate 8 0) (world_g0 315965106)))
   \<and> LoRaMacMcChannelSetupRxParams demo_env (0x00 AND 0x03)
        \<lparr>Frequency = freq_of_bytes 0xD2 0xAD 0x84, Datarate = 0\<rparr> 0
        (mac (init_state (replicate 8 0) (world_g0 315965106))) = (LORAMAC_STATUS_OK, 0, world_g0 315965106)
   \<and> sint (u32_of_bytes 0x00 0x01 0x00 0x00 + UNIX_GPS_EPOCH_OFFSET demo_env
             - SysTimeGet demo_env (world_g0 315965106)) \<le> 0
   \<and> (\<exists>s'. LmhpRemoteMcastSetupOnMcpsIndication demo_env
              \<lparr>Buffer = [0x04, 0x00, 0x00, 0x01, 0x00, 0x00, 0x03, 0xD2, 0xAD, 0x84, 0x00], BufferSize = 11\<rparr>
              (init_state (replicate 8 0) (world_g0 315965106)) = Some (Inr s')
         \<and> SendRequests s' = SendRequests (init_state (replicate 8 0) (world_g0 315965106)) @
               [(\<lparr>AppBuffer = [0x04, 0x00 OR 0x10], AppBufferSize = 2, Port = 200\<rparr>,
                 LORAMAC_HANDLER_UNCONFIRMED_MSG)]
         \<and> bit (0x00 OR 0x10 :: u8) 4
         \<and> SessionStartTimer s' = SessionStartTimer (init_state (replicate 8 0) (world_g0 315965106))
         \<and> SessionStopTimer s' = SessionStopTimer (init_state (replicate 8 0) (world_g0 315965106)))"
proof -
  have h1: "2 \<le> length (DataBuffer (init_state (replicate 8 0) (world_g0 315965106)))"
    by (simp add: init_state_def)
  have h2: "LoRaMacMcChannelSetupRxParams demo_env (0x00 AND 0x03)
        \<lparr>Frequency = freq_of_bytes 0xD2 0xAD 0x84, Datarate = 0\<rparr> 0
        (mac (init_state (replicate 8 0) (world_g0 315965106))) = (LORAMAC_STATUS_OK, 0, world_g0 315965106)"
    by (simp add: demo_defs)
  have h3: "sint (u32_of_bytes 0x00 0x01 0x00 0x00 + UNIX_GPS_EPOCH_OFFSET demo_env
             - SysTimeGet demo_env (world_g0 315965106)) \<le> 0"
    by (simp add: demo_defs)
  show ?thesis
    using h1 h2 h3 class_c_session_past_start [OF refl h1 h2 h3] by blast
qed

text \<open>
  C6 (as amended). The state field of a session record is never written: the start
  timer callback, the stop timer callback and the processing of any inbound buffer
  leave the state field of every record as it was. The zero-initialised records are
  \<^verbatim>\<open>SESSION_STOPED\<close> and stay so.
\<close>

theorem session_state_never_written:
  "SessionState (McSessionData (OnSessionStartTimer s) i) = SessionState (McSessionData s i)
   \<and> SessionState (McSessionData (OnSessionStopTimer s) i) = SessionState (McSessionData s i)
   \<and> (\<forall>s'. LmhpRemoteMcastSetupOnMcpsIndication env ind s = Some (Inr s')
         \<longrightarrow> SessionState (McSessionData s' i) = SessionState (McSessionData s i))"
  by (simp add: OnSessionStartTimer_def OnSessionStopTimer_def Let_def handler_SessionState)

text \<open>An instance: a class C session command for group 0, and the two timer
  callbacks.\<close>

theorem session_state_never_written_witness:
  "observe (SessionState \<circ> session 0)
     (LmhpRemoteMcastSetupOnMcpsIndication demo_env
        \<lparr>Buffer = [0x04, 0x00, 0x32, 0x01, 0x00, 0x00, 0x03, 0xD2, 0xAD, 0x84, 0x00], BufferSize = 11\<rparr>
        (init_state (replicate 8 0) (world_g0 315965056))) =
     Some (Inr (SessionState (McSessionData (init_state (replicate 8 0) (world_g0 315965056)) 0)))
   \<and> SessionState (McSessionData (OnSessionStartTimer (init_state (replicate 8 0) (world_g0 315965056))) 0)
       = SessionState (McSessionData (init_state (replicate 8 0) (world_g0 315965056)) 0)
   \<and> SessionState (McSessionData (OnSessionStopTimer (init_state (replicate 8 0) (world_g0 315965056))) 0)
       = SessionState (McSessionData (init_state (replicate 8 0) (world_g0 315965056)) 0)"
proof -
  let ?s = "init_state (replicate 8 0) (world_g0 315965056)"
  let ?ind = "\<lparr>Buffer = [0x04, 0x00, 0x32, 0x01, 0x00, 0x00, 0x03, 0xD2, 0xAD, 0x84, 0x00], BufferSize = 11\<rparr>"
  have "\<exists>s'. LmhpRemoteMcastSetupOnMcpsIndication demo_env ?ind ?s = Some (Inr s')"
    by (simp add: run_defs)
  then obtain s' where h: "LmhpRemoteMcastSetupOnMcpsIndication demo_env ?ind ?s = Some (Inr s')" ..
  have "SessionState (McSessionData s' 0) = SessionState (McSessionData ?s 0)"
    using session_state_never_written [of ?s 0 demo_env ?ind] h by blast
  then show ?thesis
    using h session_state_never_written [of ?s 0 demo_env ?ind]
    by (simp add: observe_def session_def)
qed

text \<open>C6 as stated fails: after a class C session command has armed the start timer
  for group 0 and the start timer has fired, the record of slot 0 is still
  \<^verbatim>\<open>SESSION_STOPED\<close>.\<close>

theorem session_state_counterexample:
  "observe (SessionState \<circ> session 0)
     (LmhpRemoteMcastSetupOnMcpsIndication demo_env
        \<lparr>Buffer = [0x04, 0x00, 0x32, 0x01, 0x00, 0x00, 0x03, 0xD2, 0xAD, 0x84, 0x00], BufferSize = 11\<rparr>
        (init_state (replicate 8 0) (world_g0 315965056))) = Some (Inr SESSION_STOPED)
   \<and> observe SessionStartTimer
     (LmhpRemoteMcastSetupOnMcpsIndication demo_env
        \<lparr>Buffer = [0x04, 0x00, 0x32, 0x01, 0x00, 0x00, 0x03, 0xD2, 0xAD, 0x84, 0x00], BufferSize = 11\<rparr>
        (init_state (replicate 8 0) (world_g0 315965056))) =
       Some (Inr \<lparr>ReloadValue = 50000, IsStarted = True\<rparr>)
   \<and> observe (SessionState \<circ> session 0 \<circ> OnSessionStartTimer)
     (LmhpRemoteMcastSetupOnMcpsIndication demo_env
        \<lparr>Buffer = [0x04, 0x00, 0x32, 0x01, 0x00, 0x00, 0x03, 0xD2, 0xAD, 0x84, 0x00], BufferSize = 11\<rparr>
        (init_state (replicate 8 0) (world_g0 315965056))) = Some (Inr SESSION_STOPED)
   \<and> SESSION_STOPED \<noteq> SESSION_STARTED"
  by (simp add: run_defs OnSessionStartTimer_def)

text \<open>
  C7 (as amended). When the start timer fires after a class C session command has armed
  it, the module requests class C and arms the stop timer for \<open>2 ^ k\<close> seconds, where
  \<open>k\<close> is the timeout held in the session record of slot 0: the 4-bit timeout of that
  command when its group is 0, and otherwise the timeout slot 0 held before the command
  (at most 15, as \<open>handler_SessionTimeout\<close> keeps it). When the stop timer fires, the
  module requests class A.
\<close>

theorem stop_timer_uses_slot_0:
  assumes ind: "ind = \<lparr>Buffer = [0x04, idb, t0, t1, t2, t3, tmo, f0, f1, f2, dr], BufferSize = 11\<rparr>"
    and cap: "5 \<le> length (DataBuffer s)"
    and mac: "LoRaMacMcChannelSetupRxParams env (idb AND 0x03)
                \<lparr>Frequency = freq_of_bytes f0 f1 f2, Datarate = dr\<rparr> 0 (mac s) = (LORAMAC_STATUS_OK, status, m)"
    and future: "0 < sint (u32_of_bytes t0 t1 t2 t3 + UNIX_GPS_EPOCH_OFFSET env - SysTimeGet env m)"
    and k: "k = (if idb AND 0x03 = 0 then tmo AND 0x0F else SessionTimeout (McSessionData s 0))"
    and old: "unat (SessionTimeout (McSessionData s 0)) \<le> 15"
  shows "\<exists>s'. LmhpRemoteMcastSetupOnMcpsIndication env ind s = Some (Inr s')
     \<and> IsStarted (SessionStartTimer s')
     \<and> ClassRequests (OnSessionStartTimer s') = ClassRequests s @ [CLASS_C]
     \<and> IsStarted (SessionStopTimer (OnSessionStartTimer s'))
     \<and> unat (ReloadValue (SessionStopTimer (OnSessionStartTimer s'))) = 2 ^ unat k * 1000
     \<and> ClassRequests (OnSessionStopTimer (OnSessionStartTimer s')) = ClassRequests s @ [CLASS_C, CLASS_A]
     \<and> \<not> IsStarted (SessionStopTimer (OnSessionStopTimer (OnSessionStartTimer s')))"
proof -
  have "unat (tmo AND 0x0F) \<le> unat (0x0F :: u8)"
    by (rule word_and_le1 [THEN word_le_nat_alt [THEN iffD1]])
  then have "unat k \<le> 15" using k old by (simp split: if_splits)
  then have v: "unat (push_bit (unat k) (1::u32) * 1000) = 2 ^ unat k * 1000"
    by (rule stop_timer_value)
  show ?thesis
  proof (cases "idb AND 0x03 = 0")
    case True
    then have "k = tmo AND 0x0F" using k by simp
    with v True show ?thesis
      using cap mac future unfolding ind
      by (simp add: handler_defs case_MC_GROUP_CLASS_C_SESSION_REQ_def wr_list_eq
          OnSessionStartTimer_def OnSessionStopTimer_def)
  next
    case False
    then have "k = SessionTimeout (McSessionData s 0)" using k by simp
    moreover have "unat (idb AND 0x03) \<noteq> 0" using False by (simp add: unat_eq_0)
    ultimately show ?thesis
      using v cap mac future unfolding ind
      by (simp add: handler_defs case_MC_GROUP_CLASS_C_SESSION_REQ_def wr_list_eq
          OnSessionStartTimer_def OnSessionStopTimer_def)
  qed
qed

text \<open>An instance: a command for group 0 with the timeout 3; the stop timer runs 8
  seconds.\<close>

theorem stop_timer_uses_slot_0_witness:
  "5 \<le> length (DataBuffer (init_state (replicate 8 0) (world_g0 315965056)))
   \<and> LoRaMacMcChannelSetupRxParams demo_env (0x00 AND 0x03)
        \<lparr>Frequency = freq_of_bytes 0xD2 0xAD 0x84, Datarate = 0\<rparr> 0
        (mac (init_state (replicate 8 0) (world_g0 315965056))) = (LORAMAC_STATUS_OK, 0, world_g0 315965056)
   \<and> 0 < sint (u32_of_bytes 0x32 0x01 0x00 0x00 + UNIX_GPS_EPOCH_OFFSET demo_env
                 - SysTimeGet demo_env (world_g0 315965056))
   \<and> (3 :: u8) = (if (0x00 :: u8) AND 0x03 = 0 then 0x03 AND 0x0F
                   else SessionTimeout (McSessionData (init_state (replicate 8 0) (world_g0 315965056)) 0))
   \<and> unat (SessionTimeout (McSessionData (init_state (replicate 8 0) (world_g0 315965056)) 0)) \<le> 15
   \<and> (\<exists>s'. LmhpRemoteMcastSetupOnMcpsIndication demo_env
              \<lparr>Buffer = [0x04, 0x00, 0x32, 0x01, 0x00, 0x00, 0x03, 0xD2, 0xAD, 0x84, 0x00], BufferSize = 11\<rparr>
              (init_state (replicate 8 0) (world_g0 315965056)) = Some (Inr s')
         \<and> IsStarted (SessionStartTimer s')
         \<and> ClassRequests (OnSessionStartTimer s')
             = ClassRequests (init_state (replicate 8 0) (world_g0 315965056)) @ [CLASS_C]
         \<and> IsStarted (SessionStopTimer (OnSessionStartTimer s'))
         \<and> unat (ReloadValue (SessionStopTimer (OnSessionStartTimer s'))) = 2 ^ unat (3 :: u8) * 1000
         \<and> ClassRequests (OnSessionStopTimer (OnSessionStartTimer s'))
             = ClassRequests (init_state (replicate 8 0) (world_g0 315965056)) @ [CLASS_C, CLASS_A]
         \<and> \<not> IsStarted (SessionStopTimer (OnSessionStopTimer (OnSessionStartTimer s'))))"
proof -
  let ?s = "init_state (replicate 8 0) (world_g0 315965056)"
  have h1: "5 \<le> length (DataBuffer ?s)" by (simp add: init_state_def)
  have h2: "LoRaMacMcChannelSetupRxParams demo_env (0x00 AND 0x03)
        \<lparr>Frequency = freq_of_bytes 0xD2 0xAD 0x84, Datarate = 0\<rparr> 0
        (mac ?s) = (LORAMAC_STATUS_OK, 0, world_g0 315965056)"
    by (simp add: demo_defs)
  have h3: "0 < sint (u32_of_bytes 0x32 0x01 0x00 0x00 + UNIX_GPS_EPOCH_OFFSET demo_env
                 - SysTimeGet demo_env (world_g0 315965056))"
    by (simp add: demo_defs)
  have h4: "(3 :: u8) = (if (0x00 :: u8) AND 0x03 = 0 then 0x03 AND 0x0F
                   else SessionTimeout (McSessionData ?s 0))"
    by simp
  have h5: "unat (SessionTimeout (McSessionData ?s 0)) \<le> 15"
    by (simp add: demo_defs)
  show ?thesis
    using h1 h2 h3 h4 h5 stop_timer_uses_slot_0 [OF refl h1 h2 h3 h4 h5] by blast
qed

text \<open>C7 as stated fails for a command of another group: a command for group 1 stores
  the timeout 3 in slot 1 and arms the start timer; when it fires, the stop timer is
  armed for 1 second (the timeout 0 of slot 0), not for 8.\<close>

theorem stop_timer_other_group_counterexample:
  "observe (SessionTimeout \<circ> session 1)
     (LmhpRemoteMcastSetupOnMcpsIndication demo_env
        \<lparr>Buffer = [0x04, 0x01, 0x32, 0x01, 0x00, 0x00, 0x03, 0xD2, 0xAD, 0x84, 0x00], BufferSize = 11\<rparr>
        (init_state (replicate 8 0) (world_g01 315965056))) = Some (Inr 3)
   \<and> observe SessionStartTimer
     (LmhpRemoteMcastSetupOnMcpsIndication demo_env
        \<lparr>Buffer = [0x04, 0x01, 0x32, 0x01, 0x00, 0x00, 0x03, 0xD2, 0xAD, 0x84, 0x00], BufferSize = 11\<rparr>
        (init_state (replicate 8 0) (world_g01 315965056))) =
       Some (Inr \<lparr>ReloadValue = 50000, IsStarted = True\<rparr>)
   \<and> observe (SessionStopTimer \<circ> OnSessionStartTimer)
     (LmhpRemoteMcastSetupOnMcpsIndication demo_env
        \<lparr>Buffer = [0x04, 0x01, 0x32, 0x01, 0x00, 0x00, 0x03, 0xD2, 0xAD, 0x84, 0x00], BufferSize = 11\<rparr>
        (init_state (replicate 8 0) (world_g01 315965056))) =
       Some (Inr \<lparr>ReloadValue = 1000, IsStarted = True\<rparr>)
   \<and> (1000 :: u32) \<noteq> 2 ^ 3 * 1000"
  by (simp add: run_defs OnSessionStartTimer_def)

text \<open>
  C8. Processing the inbound buffer \<open>[0x00]\<close>, a single package version request, produces
  exactly the outbound buffer \<open>[0x00, 0x02, 0x01]\<close> (answer opcode, package identifier 2,
  version 1), handed to the host as one unconfirmed message on port 200. Nothing else
  of the state changes. The host's buffer holds at least the three bytes.
\<close>

theorem pkg_version_answer:
  assumes "3 \<le> length (DataBuffer s)"
  shows "LmhpRemoteMcastSetupOnMcpsIndication env \<lparr>Buffer = [0x00], BufferSize = 1\<rparr> s =
     Some (Inr (s\<lparr>DataBuffer := [0x00, 0x02, 0x01] @ drop 3 (DataBuffer s),
                  SendRequests := SendRequests s @
                    [(\<lparr>AppBuffer = [0x00, 0x02, 0x01], AppBufferSize = 3, Port = 200\<rparr>,
                      LORAMAC_HANDLER_UNCONFIRMED_MSG)]\<rparr>))"
  using assms
  apply (simp add: handler_defs case_PKG_VERSION_REQ_def wr_list_eq)
  apply (simp add: numeral_3_eq_3)
  done

text \<open>The scenario, run on a host buffer of eight bytes.\<close>

theorem pkg_version_answer_witness:
  "3 \<le> length (DataBuffer (init_state (replicate 8 0) (world_empty 0)))
   \<and> LmhpRemoteMcastSetupOnMcpsIndication demo_env \<lparr>Buffer = [0x00], BufferSize = 1\<rparr>
         (init_state (replicate 8 0) (world_empty 0)) =
       Some (Inr ((init_state (replicate 8 0) (world_empty 0))
         \<lparr>DataBuffer := [0x00, 0x02, 0x01, 0, 0, 0, 0, 0],
          SendRequests := [(\<lparr>AppBuffer = [0x00, 0x02, 0x01], AppBufferSize = 3, Port = 200\<rparr>,
                            LORAMAC_HANDLER_UNCONFIRMED_MSG)]\<rparr>))"
  using pkg_version_answer [of "init_state (replicate 8 0) (world_empty 0)" demo_env]
  by (simp add: init_state_def numeral_eq_Suc)

text \<open>
  C9. Every answer begins with the opcode of the command that produced it, followed by
  the payload of the answer: whenever a turn of the command loop moves
  \<^verbatim>\<open>dataBufferIndex\<close>, the opcode read in that turn is one of 0x00 to 0x04, the byte
  stored at the old \<^verbatim>\<open>dataBufferIndex\<close> is that opcode, and at least two bytes were stored.
  This includes the answers of the group delete and class C session commands that
  carry a status only.
\<close>

theorem answer_begins_with_opcode:
  assumes run: "switch_cmd env ind (ci, dbi, s) = Inr (ci', dbi', s')"
    and ans: "dbi' \<noteq> dbi"
  shows "unat ci < length (Buffer ind)
     \<and> Buffer ind ! unat ci \<le> 0x04
     \<and> DataBuffer s' ! unat dbi = Buffer ind ! unat ci
     \<and> 2 \<le> unat (dbi' - dbi)"
proof -
  let ?opc = "Buffer ind ! unat ci"
  have lt: "unat ci < length (Buffer ind)"
    using run by (auto simp: switch_cmd_def rd_def seq_eq_Inr split: if_splits)
  then have r: "rd ind ci = Inr (?opc, ci + 1)" by (simp add: rd_def)
  consider "?opc = 0x00" | "?opc = 0x01" | "?opc = 0x02" | "?opc = 0x03" | "?opc = 0x04"
    | "?opc \<notin> {0x00, 0x01, 0x02, 0x03, 0x04}" by auto
  then have "?opc \<le> 0x04 \<and> DataBuffer s' ! unat dbi = ?opc \<and> 2 \<le> unat (dbi' - dbi)"
  proof cases
    case 1
    then show ?thesis
      using run r case_PKG_VERSION_REQ_answer [of "ci + 1" dbi s ci' dbi' s']
      by (simp add: switch_cmd_def)
  next
    case 2
    then show ?thesis
      using run r case_MC_GROUP_STATUS_REQ_answer [of env ind "ci + 1" dbi s ci' dbi' s']
      by (simp add: switch_cmd_def)
  next
    case 3
    then show ?thesis
      using run r ans case_MC_GROUP_SETUP_REQ_answer [of env ind "ci + 1" dbi s ci' dbi' s']
      by (simp add: switch_cmd_def)
  next
    case 4
    then show ?thesis
      using run r case_MC_GROUP_DELETE_REQ_answer [of env ind "ci + 1" dbi s ci' dbi' s']
      by (simp add: switch_cmd_def)
  next
    case 5
    then show ?thesis
      using run r case_MC_GROUP_CLASS_C_SESSION_REQ_answer [of env ind "ci + 1" dbi s ci' dbi' s']
      by (simp add: switch_cmd_def)
  next
    case 6
    then show ?thesis
      using run r ans by (auto simp: switch_cmd_def split: if_splits)
  qed
  with lt show ?thesis by simp
qed

text \<open>An instance: a group delete command for group 2, which the stand-in does not
  know; the answer is \<open>[0x03, 0x06]\<close>.\<close>

theorem answer_begins_with_opcode_witness:
  "switch_cmd demo_env \<lparr>Buffer = [0x03, 0x02], BufferSize = 2\<rparr>
      (0, 0, init_state [0, 0, 0, 0] (world_empty 0)) =
     Inr (2, 2, (init_state [0, 0, 0, 0] (world_empty 0))\<lparr>DataBuffer := [0x03, 0x06, 0, 0]\<rparr>)
   \<and> (2 :: u8) \<noteq> 0
   \<and> unat (0 :: u8) < length (Buffer \<lparr>Buffer = [0x03, 0x02], BufferSize = 2\<rparr>)
   \<and> Buffer \<lparr>Buffer = [0x03, 0x02], BufferSize = 2\<rparr> ! unat (0 :: u8) \<le> 0x04
   \<and> DataBuffer ((init_state [0, 0, 0, 0] (world_empty 0))\<lparr>DataBuffer := [0x03, 0x06, 0, 0]\<rparr>) ! unat (0 :: u8)
       = Buffer \<lparr>Buffer = [0x03, 0x02], BufferSize = 2\<rparr> ! unat (0 :: u8)
   \<and> 2 \<le> unat (2 - 0 :: u8)"
proof -
  have h1: "switch_cmd demo_env \<lparr>Buffer = [0x03, 0x02], BufferSize = 2\<rparr>
      (0, 0, init_state [0, 0, 0, 0] (world_empty 0)) =
     Inr (2, 2, (init_state [0, 0, 0, 0] (world_empty 0))\<lparr>DataBuffer := [0x03, 0x06, 0, 0]\<rparr>)"
    by (simp add: run_defs)
  have h2: "(2 :: u8) \<noteq> 0" by simp
  show ?thesis
    using h1 h2 answer_begins_with_opcode [OF h1 h2] by blast
qed

text \<open>
  C10. For every class C session command: the session record of slot \<open>id AND 3\<close> holds
  the decoded session time plus the Unix to GPS offset, the timeout (the low four bits),
  the receive frequency (three bytes, least significant first, times 100) and the data
  rate; the MAC layer is called with these stored receive parameters; and the stored
  values are the same whatever status \<open>r\<close> the MAC layer returns, a failure included.
\<close>

theorem class_c_session_stored:
  assumes ind: "ind = \<lparr>Buffer = [0x04, idb, t0, t1, t2, t3, tmo, f0, f1, f2, dr], BufferSize = 11\<rparr>"
    and cap: "5 \<le> length (DataBuffer s)"
    and mac: "LoRaMacMcChannelSetupRxParams env (idb AND 0x03)
                \<lparr>Frequency = of_nat (le_val [f0, f1, f2] * 100), Datarate = dr\<rparr> 0 (mac s) = (r, status, m)"
  shows "\<exists>s'. LmhpRemoteMcastSetupOnMcpsIndication env ind s = Some (Inr s')
     \<and> McSessionData s' (unat (idb AND 0x03)) =
         (McSessionData s (unat (idb AND 0x03)))
           \<lparr>SessionTime := of_nat (le_val [t0, t1, t2, t3]) + UNIX_GPS_EPOCH_OFFSET env,
            SessionTimeout := tmo AND 0x0F,
            RxParams := \<lparr>Frequency = of_nat (le_val [f0, f1, f2] * 100), Datarate = dr\<rparr>\<rparr>
     \<and> mac s' = m"
  using cap mac unfolding ind of_nat_le_val4 of_nat_le_val3
  by (cases "r = LORAMAC_STATUS_OK")
     (simp_all add: handler_defs case_MC_GROUP_CLASS_C_SESSION_REQ_def wr_list_eq)

text \<open>An instance: group 1 is unknown to the stand-in, so its receive-parameter setup
  fails; the record of slot 1 holds the decoded fields all the same.\<close>

theorem class_c_session_stored_witness:
  "5 \<le> length (DataBuffer (init_state (replicate 8 0) (world_empty 7)))
   \<and> LoRaMacMcChannelSetupRxParams demo_env (0x05 AND 0x03)
        \<lparr>Frequency = of_nat (le_val [0xD2, 0xAD, 0x84] * 100), Datarate = 0x05\<rparr> 0
        (mac (init_state (replicate 8 0) (world_empty 7))) = (LORAMAC_STATUS_ERROR, 1, world_empty 7)
   \<and> (\<exists>s'. LmhpRemoteMcastSetupOnMcpsIndication demo_env
              \<lparr>Buffer = [0x04, 0x05, 0x32, 0x01, 0x00, 0x00, 0xF3, 0xD2, 0xAD, 0x84, 0x05], BufferSize = 11\<rparr>
              (init_state (replicate 8 0) (world_empty 7)) = Some (Inr s')
         \<and> McSessionData s' (unat (0x05 AND 0x03 :: u8)) =
             (McSessionData (init_state (replicate 8 0) (world_empty 7)) (unat (0x05 AND 0x03 :: u8)))
               \<lparr>SessionTime := of_nat (le_val [0x32, 0x01, 0x00, 0x00]) + UNIX_GPS_EPOCH_OFFSET demo_env,
                SessionTimeout := 0xF3 AND 0x0F,
                RxParams := \<lparr>Frequency = of_nat (le_val [0xD2, 0xAD, 0x84] * 100), Datarate = 0x05\<rparr>\<rparr>
         \<and> mac s' = world_empty 7)"
proof -
  have h1: "5 \<le> length (DataBuffer (init_state (replicate 8 0) (world_empty 7)))"
    by (simp add: init_state_def)
  have h2: "LoRaMacMcChannelSetupRxParams demo_env (0x05 AND 0x03)
        \<lparr>Frequency = of_nat (le_val [0xD2, 0xAD, 0x84] * 100), Datarate = 0x05\<rparr> 0
        (mac (init_state (replicate 8 0) (world_empty 7))) = (LORAMAC_STATUS_ERROR, 1, world_empty 7)"
    by (simp add: demo_defs)
  show ?thesis
    using h1 h2 class_c_session_stored [OF refl h1 h2] by blast
qed

end
